theory Spec2Isabelle
  imports Complex_Main "HOL-Library.Multiset"
begin

section \<open>Identifier normalizer\<close>

text \<open>
  A Python \<open>str\<close> is a sequence of Unicode code points, so it is modelled as a list
  of natural numbers (the code points); \<open>len\<close> is \<open>length\<close>. Literals of the
  source are written through \<open>lit\<close>.
\<close>

type_synonym pystr = "nat list"

definition lit :: "string \<Rightarrow> pystr" where
  "lit s = map of_char s"

text \<open>
  The character class \<open>[a-zA-Z0-9_-]\<close> of the two extraction patterns.
\<close>

definition id_char :: "nat \<Rightarrow> bool" where
  "id_char c \<longleftrightarrow>
     (97 \<le> c \<and> c \<le> 122) \<or> (65 \<le> c \<and> c \<le> 90) \<or> (48 \<le> c \<and> c \<le> 57) \<or> c = 95 \<or> c = 45"

text \<open>
  The class \<open>\w\<close> of a \<open>str\<close> pattern compiled without \<open>re.ASCII\<close>: the ASCII letters,
  digits and underscore, and every other code point that is alphanumeric in the Unicode
  database. The database is not part of the repository: the Latin-1 letters
  (U+00C0 to U+00FF without the two operators U+00D7 and U+00F7) are written out, every
  other code point from U+0080 on is left to the parameter \<open>U\<close>.
\<close>

definition word_char :: "(nat \<Rightarrow> bool) \<Rightarrow> nat \<Rightarrow> bool" where
  "word_char U c =
     (if c < 128 then (97 \<le> c \<and> c \<le> 122) \<or> (65 \<le> c \<and> c \<le> 90) \<or> (48 \<le> c \<and> c \<le> 57) \<or> c = 95
      else if 192 \<le> c \<and> c \<le> 255 \<and> c \<noteq> 215 \<and> c \<noteq> 247 then True
      else U c)"

text \<open>
  \<open>VIDEO_ID_REGEX = re.compile(r'^[\w-]{11}$')\<close>, used with \<open>fullmatch\<close>: exactly eleven
  characters, each in \<open>\w\<close> or a hyphen.
\<close>

definition validate_video_id :: "(nat \<Rightarrow> bool) \<Rightarrow> pystr \<Rightarrow> bool" where
  "validate_video_id U video_id \<longleftrightarrow>
     length video_id = 11 \<and> list_all (\<lambda>c. word_char U c \<or> c = 45) video_id"

text \<open>
  \<open>re.search\<close> of a pattern \<open>(?:a1|a2|...)([a-zA-Z0-9_-]{11})\<close>: the start positions are
  tried from left to right, at each position the alternatives in their order, and an
  alternative succeeds when it is followed by eleven characters of the class. The result
  is group 1.
\<close>

fun strip_prefix :: "pystr \<Rightarrow> pystr \<Rightarrow> pystr option" where
  "strip_prefix [] s = Some s"
| "strip_prefix (p # ps) [] = None"
| "strip_prefix (p # ps) (c # cs) = (if p = c then strip_prefix ps cs else None)"

definition group11 :: "pystr \<Rightarrow> pystr option" where
  "group11 s = (if 11 \<le> length s \<and> list_all id_char (take 11 s) then Some (take 11 s) else None)"

fun match_here :: "pystr list \<Rightarrow> pystr \<Rightarrow> pystr option" where
  "match_here [] s = None"
| "match_here (a # alts) s =
     (case strip_prefix a s of
        None \<Rightarrow> match_here alts s
      | Some rest \<Rightarrow> (case group11 rest of None \<Rightarrow> match_here alts s | Some g \<Rightarrow> Some g))"

fun re_search :: "pystr list \<Rightarrow> pystr \<Rightarrow> pystr option" where
  "re_search alts [] = match_here alts []"
| "re_search alts (c # cs) =
     (case match_here alts (c # cs) of None \<Rightarrow> re_search alts cs | Some g \<Rightarrow> Some g)"

definition patterns :: "pystr list list" where
  "patterns =
     [[lit ''v='', lit ''/'', lit ''embed/'', lit ''shorts/'', lit ''live/''],
      [lit ''youtu.be/'']]"

fun try_patterns :: "(nat \<Rightarrow> bool) \<Rightarrow> pystr list list \<Rightarrow> pystr \<Rightarrow> pystr option" where
  "try_patterns U [] s = None"
| "try_patterns U (p # ps) s =
     (case re_search p s of
        None \<Rightarrow> try_patterns U ps s
      | Some vid \<Rightarrow> if validate_video_id U vid then Some vid else try_patterns U ps s)"

definition extract_video_id :: "(nat \<Rightarrow> bool) \<Rightarrow> pystr \<Rightarrow> pystr option" where
  "extract_video_id U url_or_id =
     (if validate_video_id U url_or_id then Some url_or_id
      else try_patterns U patterns url_or_id)"

text \<open>
  The pattern \<open>^[A-Za-z0-9_-]{11}$\<close> of the specification's VideoId.
\<close>

definition video_id_shape :: "pystr \<Rightarrow> bool" where
  "video_id_shape s \<longleftrightarrow> length s = 11 \<and> list_all id_char s"

section \<open>Configuration, exceptions and call outcomes\<close>

text \<open>
  The settings the engines read from the environment. Counts are Python integers, times
  are seconds; the floating-point seconds of the source are modelled as real numbers.
\<close>

record config =
  TRANSCRIPT_PROXY_ATTEMPTS_PER_PROVIDER :: int
  TRANSCRIPT_PROXY_FAILURE_THRESHOLD :: int
  TRANSCRIPT_PROXY_COOLDOWN_SECONDS :: real
  TRANSCRIPT_CACHE_TTL :: real
  COMMENT_CACHE_TTL :: real
  COMMENT_INFLIGHT_WAIT_SECONDS :: real

text \<open>The values used when the environment sets none of them.\<close>

definition default_config :: config where
  "default_config =
     \<lparr>TRANSCRIPT_PROXY_ATTEMPTS_PER_PROVIDER = 2,
      TRANSCRIPT_PROXY_FAILURE_THRESHOLD = 2,
      TRANSCRIPT_PROXY_COOLDOWN_SECONDS = 300,
      TRANSCRIPT_CACHE_TTL = 7200,
      COMMENT_CACHE_TTL = 7200,
      COMMENT_INFLIGHT_WAIT_SECONDS = 15\<rparr>"

text \<open>
  The exceptions the handlers of the source tell apart. \<open>NoTranscriptFound\<close> and the
  other errors of the transcript library (\<open>RequestBlocked\<close>, \<open>VideoUnavailable\<close>,
  \<open>AgeRestricted\<close>, \<open>TranscriptsDisabled\<close>) are subclasses of
  \<open>CouldNotRetrieveTranscript\<close>; \<open>TypeError\<close> is the builtin, and \<open>OtherException\<close> is any
  other subclass of \<open>Exception\<close>.
\<close>

datatype exc =
  NoTranscriptFound
  | CouldNotRetrieveTranscript
  | RequestException
  | PermanentCommentBlock
  | TypeError
  | OtherException

datatype 'a outcome = Raised exc | Returned 'a

section \<open>Proxy provider pool\<close>

record provider =
  name :: string
  display :: string
  failure_count :: int
  cooldown_until :: real

definition TranscriptProxyProvider :: "string \<Rightarrow> string \<Rightarrow> provider" where
  "TranscriptProxyProvider n d = \<lparr>name = n, display = d, failure_count = 0, cooldown_until = 0\<rparr>"

definition is_available :: "real \<Rightarrow> provider \<Rightarrow> bool" where
  "is_available now p \<longleftrightarrow> now \<ge> cooldown_until p"

definition cooldown_remaining :: "real \<Rightarrow> provider \<Rightarrow> real" where
  "cooldown_remaining now p = max 0 (cooldown_until p - now)"

definition record_success :: "provider \<Rightarrow> provider" where
  "record_success p = p\<lparr>failure_count := 0, cooldown_until := 0\<rparr>"

text \<open>\<open>record_failure\<close> returns whether the provider enters cooldown, and the provider.\<close>

definition record_failure :: "config \<Rightarrow> real \<Rightarrow> provider \<Rightarrow> bool \<times> provider" where
  "record_failure cfg now p =
     (let c = failure_count p + 1 in
      if c \<ge> TRANSCRIPT_PROXY_FAILURE_THRESHOLD cfg
      then (True, p\<lparr>failure_count := 0,
                     cooldown_until := now + TRANSCRIPT_PROXY_COOLDOWN_SECONDS cfg\<rparr>)
      else (False, p\<lparr>failure_count := c\<rparr>))"

text \<open>A call sequence on one provider; a failure is recorded at the time it carries.\<close>

datatype call = Success | Failure real

fun apply_call :: "config \<Rightarrow> provider \<Rightarrow> call \<Rightarrow> provider" where
  "apply_call cfg p Success = record_success p"
| "apply_call cfg p (Failure now) = snd (record_failure cfg now p)"

fun apply_calls :: "config \<Rightarrow> provider \<Rightarrow> call list \<Rightarrow> provider" where
  "apply_calls cfg p [] = p"
| "apply_calls cfg p (c # cs) = apply_calls cfg (apply_call cfg p c) cs"

text \<open>
  \<open>_select_transcript_proxy_providers\<close>, over the configured list and the clock reading.
  Python's \<open>sorted\<close> is stable, as \<open>sort_key\<close> is.
\<close>

definition select_transcript_proxy_providers :: "provider list \<Rightarrow> real \<Rightarrow> provider list" where
  "select_transcript_proxy_providers providers now =
     (if providers = [] then []
      else let available = filter (is_available now) providers in
        if available \<noteq> [] then available
        else sort_key cooldown_until providers)"

section \<open>Transcript acquisition\<close>

text \<open>
  The adapters are outside the model. An attempt of the primary adapter is an oracle
  \<open>fetch_api_once proxy attempt\<close>, with the name of the provider whose proxy is used
  (\<open>None\<close> for a direct call) and the number of the attempt; it gives the outcome of the
  call (a payload, nothing, or an exception) and the seconds the call took. The clock
  advances only during such calls.
\<close>

datatype attempt_status = Status_exception | Status_success | Status_empty

record provider_log =
  provider :: string
  cooldown_break :: bool
  skipped_due_to_cooldown :: bool
  attempts :: "attempt_status list"
  cooldown_started :: bool

text \<open>
  The inner loop \<open>for attempt in range(1, TRANSCRIPT_PROXY_ATTEMPTS_PER_PROVIDER + 1)\<close>:
  \<open>n\<close> attempts are left, \<open>k\<close> is the number of the next one. It returns the payload if
  one was fetched, the provider, the clock and the provider's log.
\<close>

fun attempts_loop ::
  "config \<Rightarrow> (string option \<Rightarrow> nat \<Rightarrow> 'p option outcome \<times> real) \<Rightarrow> nat \<Rightarrow> nat \<Rightarrow>
   provider \<Rightarrow> real \<Rightarrow> provider_log \<Rightarrow> 'p option \<times> provider \<times> real \<times> provider_log" where
  "attempts_loop cfg fetch_api_once 0 k p now lg = (None, p, now, lg)"
| "attempts_loop cfg fetch_api_once (Suc n) k p now lg =
     (case fetch_api_once (Some (name p)) k of
        (Returned (Some txt), d) \<Rightarrow>
          (Some txt, record_success p, now + d,
           lg\<lparr>attempts := attempts lg @ [Status_success]\<rparr>)
      | (Returned None, d) \<Rightarrow>
          (case record_failure cfg (now + d) p of
             (entered_cooldown, p') \<Rightarrow>
               attempts_loop cfg fetch_api_once n (Suc k) p' (now + d)
                 (lg\<lparr>attempts := attempts lg @ [Status_empty],
                     cooldown_started := cooldown_started lg \<or> entered_cooldown\<rparr>))
      | (Raised e, d) \<Rightarrow>
          (case record_failure cfg (now + d) p of
             (entered_cooldown, p') \<Rightarrow>
               attempts_loop cfg fetch_api_once n (Suc k) p' (now + d)
                 (lg\<lparr>attempts := attempts lg @ [Status_exception],
                     cooldown_started := cooldown_started lg \<or> entered_cooldown\<rparr>)))"

text \<open>
  The outer loop \<open>for idx, provider in enumerate(provider_sequence)\<close>. A provider that
  is cooling down when its turn comes is skipped, except at index 0, where the cooldown
  is broken. The loop returns the payload if one was fetched, the providers of the
  sequence as the call leaves them, the clock and the log.
\<close>

fun providers_loop ::
  "config \<Rightarrow> (string option \<Rightarrow> nat \<Rightarrow> 'p option outcome \<times> real) \<Rightarrow> nat \<Rightarrow>
   provider list \<Rightarrow> real \<Rightarrow> 'p option \<times> provider list \<times> real \<times> provider_log list" where
  "providers_loop cfg fetch_api_once idx [] now = (None, [], now, [])"
| "providers_loop cfg fetch_api_once idx (p # ps) now =
     (let available = is_available now p in
      if \<not> available \<and> idx > 0 then
        (case providers_loop cfg fetch_api_once (Suc idx) ps now of
           (r, ps', t, lgs) \<Rightarrow>
             (r, p # ps', t,
              \<lparr>provider = name p, cooldown_break = False, skipped_due_to_cooldown = True,
               attempts = [], cooldown_started = False\<rparr> # lgs))
      else
        (case attempts_loop cfg fetch_api_once
                (nat (TRANSCRIPT_PROXY_ATTEMPTS_PER_PROVIDER cfg)) 1 p now
                \<lparr>provider = name p, cooldown_break = \<not> available,
                 skipped_due_to_cooldown = False, attempts = [], cooldown_started = False\<rparr> of
           (Some txt, p', t, lg) \<Rightarrow> (Some txt, p' # ps, t, [lg])
         | (None, p', t, lg) \<Rightarrow>
             (case providers_loop cfg fetch_api_once (Suc idx) ps t of
                (r, ps', t', lgs) \<Rightarrow> (r, p' # ps', t', lg # lgs))))"

text \<open>
  The second stage. \<open>fallback_attempts\<close> are the two tasks with the proxy use each is
  given (\<open>allow_proxy=False\<close> and \<open>proxy_url=None\<close>). Both are submitted at once; a task
  is an oracle \<open>adapter step use_proxy\<close> that gives its outcome and the seconds it runs.
  \<open>as_completed(future_map, timeout=12)\<close> hands over the tasks that finish within the
  deadline in the order they finish (tasks that finish together: in the order
  submitted), and the first payload among them is returned.

  When there is none, the function ends in the statement \<open>raise NoTranscriptFound\<close>,
  which names the class and so constructs it with no argument. The constructor of the
  transcript library takes three (the source itself builds the exception elsewhere as
  \<open>NoTranscriptFound(video_id, [], None)\<close>), so the construction fails and what the
  statement raises is \<open>TypeError\<close>.
\<close>

definition fallback_attempts :: "(string \<times> bool) list" where
  "fallback_attempts = [(''timedtext'', False), (''yt-dlp_no_proxy'', False)]"

definition as_completed ::
  "real \<Rightarrow> (string \<times> 'p option outcome \<times> real) list \<Rightarrow> (string \<times> 'p option outcome \<times> real) list" where
  "as_completed timeout futures =
     filter (\<lambda>(step, out, d). d \<le> timeout) (sort_key (\<lambda>(step, out, d). d) futures)"

fun first_result :: "(string \<times> 'p option outcome \<times> real) list \<Rightarrow> 'p option" where
  "first_result [] = None"
| "first_result ((step, Raised e, d) # fs) = first_result fs"
| "first_result ((step, Returned None, d) # fs) = first_result fs"
| "first_result ((step, Returned (Some txt), d) # fs) = Some txt"

definition run_fallbacks :: "(string \<Rightarrow> bool \<Rightarrow> 'p option outcome \<times> real) \<Rightarrow> exc + 'p" where
  "run_fallbacks adapter =
     (case first_result
             (as_completed 12 (map (\<lambda>(step, use_proxy). (step, adapter step use_proxy))
                fallback_attempts)) of
        Some txt \<Rightarrow> Inr txt
      | None \<Rightarrow> Inl TypeError)"

text \<open>
  \<open>get_transcript\<close>: what it returns or raises, the providers it tried as it leaves
  them, its log of the proxy stage, and the tasks of the second stage it started.
\<close>

record 'p transcript_run =
  result :: "exc + 'p"
  providers_after :: "provider list"
  proxy_log :: "provider_log list"
  fallback_steps :: "(string \<times> bool) list"

definition retrieval_error :: "exc \<Rightarrow> bool" where
  "retrieval_error e \<longleftrightarrow> e = NoTranscriptFound \<or> e = CouldNotRetrieveTranscript"

definition get_transcript ::
  "config \<Rightarrow> provider list \<Rightarrow> real \<Rightarrow> (string option \<Rightarrow> nat \<Rightarrow> 'p option outcome \<times> real) \<Rightarrow>
   (string \<Rightarrow> bool \<Rightarrow> 'p option outcome \<times> real) \<Rightarrow> 'p transcript_run" where
  "get_transcript cfg providers now fetch_api_once adapter =
     (let provider_sequence = select_transcript_proxy_providers providers now in
      if provider_sequence \<noteq> [] then
        (case providers_loop cfg fetch_api_once 0 provider_sequence now of
           (Some txt, ps', t, lgs) \<Rightarrow>
             \<lparr>result = Inr txt, providers_after = ps', proxy_log = lgs, fallback_steps = []\<rparr>
         | (None, ps', t, lgs) \<Rightarrow>
             \<lparr>result = run_fallbacks adapter, providers_after = ps', proxy_log = lgs,
              fallback_steps = fallback_attempts\<rparr>)
      else
        (case fst (fetch_api_once None 1) of
           Returned (Some txt) \<Rightarrow>
             \<lparr>result = Inr txt, providers_after = [], proxy_log = [], fallback_steps = []\<rparr>
         | Returned None \<Rightarrow>
             \<lparr>result = run_fallbacks adapter, providers_after = [], proxy_log = [],
              fallback_steps = fallback_attempts\<rparr>
         | Raised e \<Rightarrow>
             if retrieval_error e then
               \<lparr>result = run_fallbacks adapter, providers_after = [], proxy_log = [],
                fallback_steps = fallback_attempts\<rparr>
             else
               \<lparr>result = Inl e, providers_after = [], proxy_log = [], fallback_steps = []\<rparr>))"


section \<open>Two-tier cache\<close>

text \<open>
  The memory tier is a \<open>TTLCache(maxsize, ttl)\<close> of the cachetools library: one time to
  live for the whole cache, and an entry is live until that many seconds after it was
  last written. It is modelled as a map from keys to the value and the time the entry
  expires. The size bound of the library cache (the eviction of entries when it is
  full) is not modelled. The persistent tier is a \<open>shelve\<close> file: a map without
  expiry, whose operations are taken to succeed.
\<close>

type_synonym key = pystr

type_synonym 'v ttl_cache = "key \<rightharpoonup> 'v \<times> real"

definition ttl_get :: "'v ttl_cache \<Rightarrow> real \<Rightarrow> key \<Rightarrow> 'v option" where
  "ttl_get c now k =
     (case c k of None \<Rightarrow> None | Some (v, expires) \<Rightarrow> if now < expires then Some v else None)"

definition ttl_contains :: "'v ttl_cache \<Rightarrow> real \<Rightarrow> key \<Rightarrow> bool" where
  "ttl_contains c now k \<longleftrightarrow> ttl_get c now k \<noteq> None"

definition ttl_set :: "real \<Rightarrow> 'v ttl_cache \<Rightarrow> real \<Rightarrow> key \<Rightarrow> 'v \<Rightarrow> 'v ttl_cache" where
  "ttl_set ttl c now k v = c(k \<mapsto> (v, now + ttl))"

definition expires_at :: "'v ttl_cache \<Rightarrow> key \<Rightarrow> real option" where
  "expires_at c k = map_option snd (c k)"

record 'v tiers =
  memory :: "'v ttl_cache"
  persistent :: "key \<rightharpoonup> 'v"

text \<open>
  The handlers write to the tiers one statement after the other. A handler of the model
  returns its writes as a list in program order; \<open>apply_writes\<close> carries them out.
\<close>

datatype 'v cache_write = Memory_write key 'v | Persistent_write key 'v

fun apply_write :: "real \<Rightarrow> real \<Rightarrow> 'v tiers \<Rightarrow> 'v cache_write \<Rightarrow> 'v tiers" where
  "apply_write ttl now t (Memory_write k v) = t\<lparr>memory := ttl_set ttl (memory t) now k v\<rparr>"
| "apply_write ttl now t (Persistent_write k v) = t\<lparr>persistent := (persistent t)(k \<mapsto> v)\<rparr>"

definition apply_writes :: "real \<Rightarrow> real \<Rightarrow> 'v tiers \<Rightarrow> 'v cache_write list \<Rightarrow> 'v tiers" where
  "apply_writes ttl now t ws = foldl (apply_write ttl now) t ws"

text \<open>\<open>written_before a b ws\<close>: the write \<open>a\<close> occurs in \<open>ws\<close>, and \<open>b\<close> occurs after it.\<close>

fun written_before :: "'v cache_write \<Rightarrow> 'v cache_write \<Rightarrow> 'v cache_write list \<Rightarrow> bool" where
  "written_before a b [] = False"
| "written_before a b (w # ws) =
     (if w = a then b \<in> set ws else if w = b then False else written_before a b ws)"

section \<open>Transcript endpoint\<close>

text \<open>
  A value of the transcript cache is a payload dictionary, a string (the marker
  \<open>"__NOT_AVAILABLE__"\<close>, or the bare text that older versions stored) or something
  else. The payload is left abstract; \<open>mk\<close> stands for
  \<open>make_fallback_payload(value, languages, is_generated=False)\<close>.
\<close>

datatype 'p cached = Dict 'p | Str pystr | Other_value

definition NOT_AVAILABLE :: "'p cached" where
  "NOT_AVAILABLE = Str (lit ''__NOT_AVAILABLE__'')"

fun ensure_payload :: "(pystr \<Rightarrow> 'p) \<Rightarrow> 'p cached \<Rightarrow> 'p option" where
  "ensure_payload mk (Dict p) = Some p"
| "ensure_payload mk (Str s) = Some (mk s)"
| "ensure_payload mk Other_value = None"

text \<open>
  The request after its parameters are read: the video id, the cache key composed from
  it and the language preference, and whether the legacy key may be read
  (\<open>not raw_langs and legacy_fallback_allowed\<close>).
\<close>

record request =
  video_id :: key
  cache_key :: key
  legacy_ok :: bool

datatype 'p transcript_body = Transcript_error string | Transcript_json key 'p

record 'p transcript_response =
  t_status :: nat
  t_body :: "'p transcript_body"
  t_cache_control :: "string option"

definition not_available_response :: "string option \<Rightarrow> 'p transcript_response" where
  "not_available_response cc =
     \<lparr>t_status = 404, t_body = Transcript_error ''Transcript not available'',
      t_cache_control = cc\<rparr>"

definition payload_response :: "request \<Rightarrow> 'p \<Rightarrow> string option \<Rightarrow> 'p transcript_response" where
  "payload_response req p cc =
     \<lparr>t_status = 200, t_body = Transcript_json (video_id req) p, t_cache_control = cc\<rparr>"

text \<open>
  What every read site does with a cached value: the marker gives 404, a usable value
  gives 200 and is written back to the memory tier under the cache key, anything else
  is passed over.
\<close>

definition serve_cached ::
  "(pystr \<Rightarrow> 'p) \<Rightarrow> request \<Rightarrow> 'p cached \<Rightarrow>
   ('p transcript_response \<times> 'p cached cache_write list) option" where
  "serve_cached mk req c =
     (if c = NOT_AVAILABLE then Some (not_available_response None, [])
      else case ensure_payload mk c of
        Some p \<Rightarrow> Some (payload_response req p None, [Memory_write (cache_key req) (Dict p)])
      | None \<Rightarrow> None)"

text \<open>The reads on arrival: memory, then the persistent tier, then the legacy key.\<close>

definition transcript_lookup ::
  "(pystr \<Rightarrow> 'p) \<Rightarrow> 'p cached tiers \<Rightarrow> real \<Rightarrow> request \<Rightarrow>
   ('p transcript_response \<times> 'p cached cache_write list) option" where
  "transcript_lookup mk t now req =
     (case Option.bind (ttl_get (memory t) now (cache_key req)) (serve_cached mk req) of
        Some r \<Rightarrow> Some r
      | None \<Rightarrow>
         (case Option.bind (persistent t (cache_key req)) (serve_cached mk req) of
            Some r \<Rightarrow> Some r
          | None \<Rightarrow>
             if legacy_ok req
             then Option.bind (persistent t (video_id req)) (serve_cached mk req)
             else None))"

text \<open>The reads of a follower after its wait.\<close>

definition transcript_lookup_after_wait ::
  "(pystr \<Rightarrow> 'p) \<Rightarrow> 'p cached tiers \<Rightarrow> real \<Rightarrow> request \<Rightarrow>
   ('p transcript_response \<times> 'p cached cache_write list) option" where
  "transcript_lookup_after_wait mk t now req =
     (case Option.bind (ttl_get (memory t) now (cache_key req)) (serve_cached mk req) of
        Some r \<Rightarrow> Some r
      | None \<Rightarrow>
         (let cached =
            (case persistent t (cache_key req) of
               None \<Rightarrow> if legacy_ok req then persistent t (video_id req) else None
             | Some c \<Rightarrow> Some c)
          in Option.bind cached (serve_cached mk req)))"

text \<open>
  The fetch of the leader or of a promoted follower: \<open>while attempts < 2\<close> around
  \<open>get_transcript\<close> and its handlers. \<open>calls i\<close> is what the \<open>i\<close>-th call of
  \<open>get_transcript\<close> returns or raises, \<open>n\<close> the attempts left; \<open>c\<close> is the memory tier
  and \<open>now\<close> the clock when the call has ended.
\<close>

fun transcript_fetch ::
  "nat \<Rightarrow> nat \<Rightarrow> (nat \<Rightarrow> exc + 'p) \<Rightarrow> 'p cached ttl_cache \<Rightarrow> real \<Rightarrow> request \<Rightarrow>
   'p transcript_response \<times> 'p cached cache_write list" where
  "transcript_fetch 0 i calls c now req =
     (not_available_response (Some ''public, max-age=600''), [])"
| "transcript_fetch (Suc n) i calls c now req =
     (case calls i of
        Inr payload \<Rightarrow>
          (payload_response req payload (Some ''public, max-age=3600''),
           [Memory_write (cache_key req) (Dict payload),
            Persistent_write (cache_key req) (Dict payload)])
      | Inl e \<Rightarrow>
          if e = NoTranscriptFound then
            (not_available_response (Some ''public, max-age=600''),
             if \<not> ttl_contains c now (cache_key req)
             then [Memory_write (cache_key req) NOT_AVAILABLE,
                   Persistent_write (cache_key req) NOT_AVAILABLE]
             else [])
          else if e = RequestException then transcript_fetch n (Suc i) calls c now req
          else
            (\<lparr>t_status = 500, t_body = Transcript_error ''Transcript fetch failed'',
              t_cache_control = None\<rparr>, []))"

section \<open>Comment endpoint\<close>

text \<open>
  The four strategies in their order: the step name, the extractor and whether it goes
  through the proxy. A strategy is an oracle \<open>fetch_func extractor use_proxy\<close>.
\<close>

datatype extractor = Downloader | YtDlp

definition comment_retrieval_strategies :: "(string \<times> extractor \<times> bool) list" where
  "comment_retrieval_strategies =
     [(''youtube-comment-downloader (no proxy)'', Downloader, False),
      (''youtube-comment-downloader (with proxy)'', Downloader, True),
      (''yt-dlp (no proxy)'', YtDlp, False),
      (''yt-dlp (with proxy)'', YtDlp, True)]"

text \<open>
  The loop of \<open>_fetch_comments_resilient\<close>. It returns the comments, the steps it
  invoked in their order and \<open>permanent_block_detected\<close>.
\<close>

fun strategies_loop ::
  "(extractor \<Rightarrow> bool \<Rightarrow> pystr list outcome) \<Rightarrow> (string \<times> extractor \<times> bool) list \<Rightarrow>
   pystr list \<times> string list \<times> bool" where
  "strategies_loop fetch_func [] = ([], [], False)"
| "strategies_loop fetch_func ((strategy_name, ex, use_proxy) # rest) =
     (case fetch_func ex use_proxy of
        Raised e \<Rightarrow>
          if e = PermanentCommentBlock then ([], [strategy_name], True)
          else (case strategies_loop fetch_func rest of
                  (cs, invoked, blocked) \<Rightarrow> (cs, strategy_name # invoked, blocked))
      | Returned comments \<Rightarrow>
          if comments \<noteq> [] then (comments, [strategy_name], False)
          else (case strategies_loop fetch_func rest of
                  (cs, invoked, blocked) \<Rightarrow> (cs, strategy_name # invoked, blocked)))"

definition fetch_comments_resilient ::
  "(extractor \<Rightarrow> bool \<Rightarrow> pystr list outcome) \<Rightarrow> pystr list" where
  "fetch_comments_resilient fetch_func =
     fst (strategies_loop fetch_func comment_retrieval_strategies)"

definition strategies_invoked ::
  "(extractor \<Rightarrow> bool \<Rightarrow> pystr list outcome) \<Rightarrow> string list" where
  "strategies_invoked fetch_func =
     fst (snd (strategies_loop fetch_func comment_retrieval_strategies))"

datatype comments_body = Comments_error string | Comments_json key "pystr list" "string option"

record comments_response =
  status :: nat
  body :: comments_body

fun comments_of :: "comments_body \<Rightarrow> pystr list option" where
  "comments_of (Comments_error m) = None"
| "comments_of (Comments_json v cs w) = Some cs"

fun warning_of :: "comments_body \<Rightarrow> string option" where
  "warning_of (Comments_error m) = None"
| "warning_of (Comments_json v cs w) = w"

text \<open>\<open>_try_serve_from_cache\<close>: memory, then the persistent tier with promotion.\<close>

definition try_serve_from_cache ::
  "pystr list tiers \<Rightarrow> real \<Rightarrow> key \<Rightarrow> (comments_response \<times> pystr list cache_write list) option" where
  "try_serve_from_cache t now vid =
     (case ttl_get (memory t) now vid of
        Some cached_local \<Rightarrow>
          Some (\<lparr>status = 200, body = Comments_json vid cached_local None\<rparr>, [])
      | None \<Rightarrow>
         (case persistent t vid of
            Some cached_disk \<Rightarrow>
              Some (\<lparr>status = 200, body = Comments_json vid cached_disk None\<rparr>,
                    [Memory_write vid cached_disk])
          | None \<Rightarrow> None))"

text \<open>
  The \<open>try\<close> statement of the endpoint, over what the call of
  \<open>_fetch_comments_resilient\<close> returns or raises.
\<close>

definition comments_try ::
  "pystr list outcome \<Rightarrow> key \<Rightarrow> comments_response \<times> pystr list cache_write list" where
  "comments_try fetched vid =
     (case fetched of
        Returned comments \<Rightarrow>
          (\<lparr>status = 200, body = Comments_json vid comments None\<rparr>,
           [Memory_write vid comments, Persistent_write vid comments])
      | Raised e \<Rightarrow>
          if e = PermanentCommentBlock then
            (\<lparr>status = 200,
              body = Comments_json vid []
                (Some ''YouTube is temporarily blocking comments for this video.'')\<rparr>,
             [Memory_write vid [], Persistent_write vid []])
          else
            (\<lparr>status = 200,
              body = Comments_json vid []
                (Some ''Comments could not be fetched due to a technical issue.'')\<rparr>,
             []))"

text \<open>
  The head of both endpoints: the \<open>videoId\<close> parameter is read and normalised.
\<close>

definition read_video_id :: "(nat \<Rightarrow> bool) \<Rightarrow> pystr \<Rightarrow> string + key" where
  "read_video_id U video_url_or_id =
     (if video_url_or_id = [] then Inl ''videoId parameter is missing''
      else case extract_video_id U video_url_or_id of
        None \<Rightarrow> Inl ''Invalid videoId format or URL''
      | Some vid \<Rightarrow> Inr vid)"


section \<open>Single-flight coordination\<close>

text \<open>
  Requests run on their own workers and share the cache tiers and the table of
  in-flight events. A run of an endpoint is cut at the places where it reads or writes
  what is shared, or blocks: the arrival with its cache reads, the registration under
  the lock, the end of a follower's wait with its second cache reads, the end of the
  fetch with its cache writes, and the \<open>finally\<close> block. A schedule is a list of such
  steps of numbered requesters, together with the passing of time; a step that is not
  the next one of its requester changes nothing. An \<open>Event\<close> object is a number, with
  a flag that tells whether it is set.
\<close>

datatype 'p t_pc =
  T_start
  | T_missed request
  | T_waiting request nat real
  | T_fetching request bool
  | T_finalizing request bool "'p transcript_response"
  | T_done "'p transcript_response"

record 'p t_state =
  t_tiers :: "'p cached tiers"
  transcript_inflight_events :: "key \<rightharpoonup> nat"
  t_is_set :: "nat \<Rightarrow> bool"
  t_next_event :: nat
  t_clock :: real
  t_pcs :: "nat \<Rightarrow> 'p t_pc"

datatype 'p t_event =
  T_tick real
  | T_request nat request
  | T_register nat
  | T_wake nat
  | T_complete nat "nat \<Rightarrow> exc + 'p"
  | T_finally nat

definition t_init :: "'p cached tiers \<Rightarrow> real \<Rightarrow> 'p t_state" where
  "t_init t now =
     \<lparr>t_tiers = t, transcript_inflight_events = Map.empty, t_is_set = (\<lambda>e. False),
      t_next_event = 0, t_clock = now, t_pcs = (\<lambda>r. T_start)\<rparr>"

text \<open>Arrival: the cache reads; a hit is answered at once.\<close>

definition t_request ::
  "config \<Rightarrow> (pystr \<Rightarrow> 'p) \<Rightarrow> 'p t_state \<Rightarrow> nat \<Rightarrow> request \<Rightarrow> 'p t_state" where
  "t_request cfg mk s r req =
     (case t_pcs s r of
        T_start \<Rightarrow>
          (case transcript_lookup mk (t_tiers s) (t_clock s) req of
             Some (resp, ws) \<Rightarrow>
               s\<lparr>t_tiers := apply_writes (TRANSCRIPT_CACHE_TTL cfg) (t_clock s) (t_tiers s) ws,
                 t_pcs := (t_pcs s)(r := T_done resp)\<rparr>
           | None \<Rightarrow> s\<lparr>t_pcs := (t_pcs s)(r := T_missed req)\<rparr>)
      | _ \<Rightarrow> s)"

text \<open>
  Registration under \<open>transcript_inflight_lock\<close>: the requester that finds no event
  under the cache key enters a new one and is the leader; any other waits on the event
  it finds.
\<close>

definition t_register :: "'p t_state \<Rightarrow> nat \<Rightarrow> 'p t_state" where
  "t_register s r =
     (case t_pcs s r of
        T_missed req \<Rightarrow>
          (case transcript_inflight_events s (cache_key req) of
             None \<Rightarrow>
               s\<lparr>transcript_inflight_events :=
                   (transcript_inflight_events s)(cache_key req \<mapsto> t_next_event s),
                 t_next_event := Suc (t_next_event s),
                 t_pcs := (t_pcs s)(r := T_fetching req True)\<rparr>
           | Some evt \<Rightarrow> s\<lparr>t_pcs := (t_pcs s)(r := T_waiting req evt (t_clock s))\<rparr>)
      | _ \<Rightarrow> s)"

text \<open>
  The end of \<open>evt.wait(timeout=30)\<close>: the event is set or 30 seconds have passed. The
  follower reads the caches again and, when they give nothing, goes on to fetch with
  \<open>leader\<close> still false.
\<close>

definition t_wake ::
  "config \<Rightarrow> (pystr \<Rightarrow> 'p) \<Rightarrow> 'p t_state \<Rightarrow> nat \<Rightarrow> 'p t_state" where
  "t_wake cfg mk s r =
     (case t_pcs s r of
        T_waiting req evt since \<Rightarrow>
          if t_is_set s evt \<or> t_clock s \<ge> since + 30 then
            (case transcript_lookup_after_wait mk (t_tiers s) (t_clock s) req of
               Some (resp, ws) \<Rightarrow>
                 s\<lparr>t_tiers := apply_writes (TRANSCRIPT_CACHE_TTL cfg) (t_clock s) (t_tiers s) ws,
                   t_pcs := (t_pcs s)(r := T_done resp)\<rparr>
             | None \<Rightarrow> s\<lparr>t_pcs := (t_pcs s)(r := T_fetching req False)\<rparr>)
          else s
      | _ \<Rightarrow> s)"

text \<open>The end of the fetch: the handler's cache writes and the response it will return.\<close>

definition t_complete ::
  "config \<Rightarrow> 'p t_state \<Rightarrow> nat \<Rightarrow> (nat \<Rightarrow> exc + 'p) \<Rightarrow> 'p t_state" where
  "t_complete cfg s r calls =
     (case t_pcs s r of
        T_fetching req leader \<Rightarrow>
          (case transcript_fetch 2 0 calls (memory (t_tiers s)) (t_clock s) req of
             (resp, ws) \<Rightarrow>
               s\<lparr>t_tiers := apply_writes (TRANSCRIPT_CACHE_TTL cfg) (t_clock s) (t_tiers s) ws,
                 t_pcs := (t_pcs s)(r := T_finalizing req leader resp)\<rparr>)
      | _ \<Rightarrow> s)"

text \<open>The \<open>finally\<close> block: the leader removes the event under the key and sets it.\<close>

definition t_finally :: "'p t_state \<Rightarrow> nat \<Rightarrow> 'p t_state" where
  "t_finally s r =
     (case t_pcs s r of
        T_finalizing req leader resp \<Rightarrow>
          (if leader then
             (case transcript_inflight_events s (cache_key req) of
                Some evt \<Rightarrow>
                  s\<lparr>transcript_inflight_events :=
                      (transcript_inflight_events s)(cache_key req := None),
                    t_is_set := (t_is_set s)(evt := True),
                    t_pcs := (t_pcs s)(r := T_done resp)\<rparr>
              | None \<Rightarrow> s\<lparr>t_pcs := (t_pcs s)(r := T_done resp)\<rparr>)
           else s\<lparr>t_pcs := (t_pcs s)(r := T_done resp)\<rparr>)
      | _ \<Rightarrow> s)"

fun t_step :: "config \<Rightarrow> (pystr \<Rightarrow> 'p) \<Rightarrow> 'p t_state \<Rightarrow> 'p t_event \<Rightarrow> 'p t_state" where
  "t_step cfg mk s (T_tick d) = (if d \<ge> 0 then s\<lparr>t_clock := t_clock s + d\<rparr> else s)"
| "t_step cfg mk s (T_request r req) = t_request cfg mk s r req"
| "t_step cfg mk s (T_register r) = t_register s r"
| "t_step cfg mk s (T_wake r) = t_wake cfg mk s r"
| "t_step cfg mk s (T_complete r calls) = t_complete cfg s r calls"
| "t_step cfg mk s (T_finally r) = t_finally s r"

fun t_run :: "config \<Rightarrow> (pystr \<Rightarrow> 'p) \<Rightarrow> 'p t_state \<Rightarrow> 'p t_event list \<Rightarrow> 'p t_state" where
  "t_run cfg mk s [] = s"
| "t_run cfg mk s (ev # evs) = t_run cfg mk (t_step cfg mk s ev) evs"

text \<open>
  \<open>t_acquiring s r k\<close>: requester \<open>r\<close> is fetching under key \<open>k\<close>. \<open>t_leads s r k\<close>: it does
  so as the leader elected at registration, up to the end of its \<open>finally\<close> block.
\<close>

definition t_acquiring :: "'p t_state \<Rightarrow> nat \<Rightarrow> key \<Rightarrow> bool" where
  "t_acquiring s r k =
     (case t_pcs s r of T_fetching req leader \<Rightarrow> cache_key req = k | _ \<Rightarrow> False)"

definition t_leads :: "'p t_state \<Rightarrow> nat \<Rightarrow> key \<Rightarrow> bool" where
  "t_leads s r k =
     (case t_pcs s r of
        T_fetching req leader \<Rightarrow> leader \<and> cache_key req = k
      | T_finalizing req leader resp \<Rightarrow> leader \<and> cache_key req = k
      | _ \<Rightarrow> False)"

text \<open>The comment endpoint, cut in the same way.\<close>

datatype c_pc =
  C_start
  | C_missed key
  | C_waiting key nat real
  | C_fetching key bool nat
  | C_finalizing key bool nat comments_response
  | C_done comments_response

record c_state =
  c_tiers :: "pystr list tiers"
  comment_inflight_events :: "key \<rightharpoonup> nat"
  c_is_set :: "nat \<Rightarrow> bool"
  c_next_event :: nat
  c_clock :: real
  c_pcs :: "nat \<Rightarrow> c_pc"

datatype c_event =
  C_tick real
  | C_request nat pystr
  | C_register nat
  | C_wake nat
  | C_complete nat "pystr list outcome"
  | C_finally nat

definition c_init :: "pystr list tiers \<Rightarrow> real \<Rightarrow> c_state" where
  "c_init t now =
     \<lparr>c_tiers = t, comment_inflight_events = Map.empty, c_is_set = (\<lambda>e. False),
      c_next_event = 0, c_clock = now, c_pcs = (\<lambda>r. C_start)\<rparr>"

definition c_request :: "config \<Rightarrow> (nat \<Rightarrow> bool) \<Rightarrow> c_state \<Rightarrow> nat \<Rightarrow> pystr \<Rightarrow> c_state" where
  "c_request cfg U s r video_url_or_id =
     (case c_pcs s r of
        C_start \<Rightarrow>
          (case read_video_id U video_url_or_id of
             Inl msg \<Rightarrow>
               s\<lparr>c_pcs := (c_pcs s)(r := C_done \<lparr>status = 400, body = Comments_error msg\<rparr>)\<rparr>
           | Inr vid \<Rightarrow>
              (case try_serve_from_cache (c_tiers s) (c_clock s) vid of
                 Some (resp, ws) \<Rightarrow>
                   s\<lparr>c_tiers := apply_writes (COMMENT_CACHE_TTL cfg) (c_clock s) (c_tiers s) ws,
                     c_pcs := (c_pcs s)(r := C_done resp)\<rparr>
               | None \<Rightarrow> s\<lparr>c_pcs := (c_pcs s)(r := C_missed vid)\<rparr>))
      | _ \<Rightarrow> s)"

definition c_register :: "c_state \<Rightarrow> nat \<Rightarrow> c_state" where
  "c_register s r =
     (case c_pcs s r of
        C_missed vid \<Rightarrow>
          (case comment_inflight_events s vid of
             None \<Rightarrow>
               s\<lparr>comment_inflight_events := (comment_inflight_events s)(vid \<mapsto> c_next_event s),
                 c_next_event := Suc (c_next_event s),
                 c_pcs := (c_pcs s)(r := C_fetching vid True (c_next_event s))\<rparr>
           | Some evt \<Rightarrow> s\<lparr>c_pcs := (c_pcs s)(r := C_waiting vid evt (c_clock s))\<rparr>)
      | _ \<Rightarrow> s)"

text \<open>
  The end of \<open>evt.wait(timeout=COMMENT_INFLIGHT_WAIT_SECONDS)\<close>. When the event is set
  the follower reads the caches again and, on a miss, sets \<open>leader = True\<close>; when the
  wait has timed out it sets \<open>leader = True\<close> without reading them.
\<close>

definition c_wake :: "config \<Rightarrow> c_state \<Rightarrow> nat \<Rightarrow> c_state" where
  "c_wake cfg s r =
     (case c_pcs s r of
        C_waiting vid evt since \<Rightarrow>
          if c_is_set s evt then
            (case try_serve_from_cache (c_tiers s) (c_clock s) vid of
               Some (resp, ws) \<Rightarrow>
                 s\<lparr>c_tiers := apply_writes (COMMENT_CACHE_TTL cfg) (c_clock s) (c_tiers s) ws,
                   c_pcs := (c_pcs s)(r := C_done resp)\<rparr>
             | None \<Rightarrow> s\<lparr>c_pcs := (c_pcs s)(r := C_fetching vid True evt)\<rparr>)
          else if c_clock s \<ge> since + COMMENT_INFLIGHT_WAIT_SECONDS cfg then
            s\<lparr>c_pcs := (c_pcs s)(r := C_fetching vid True evt)\<rparr>
          else s
      | _ \<Rightarrow> s)"

definition c_complete :: "config \<Rightarrow> c_state \<Rightarrow> nat \<Rightarrow> pystr list outcome \<Rightarrow> c_state" where
  "c_complete cfg s r fetched =
     (case c_pcs s r of
        C_fetching vid leader evt \<Rightarrow>
          (case comments_try fetched vid of
             (resp, ws) \<Rightarrow>
               s\<lparr>c_tiers := apply_writes (COMMENT_CACHE_TTL cfg) (c_clock s) (c_tiers s) ws,
                 c_pcs := (c_pcs s)(r := C_finalizing vid leader evt resp)\<rparr>)
      | _ \<Rightarrow> s)"

text \<open>
  The \<open>finally\<close> block: a leader sets its event and removes the entry under the key
  when that entry is still its event.
\<close>

definition c_finally :: "c_state \<Rightarrow> nat \<Rightarrow> c_state" where
  "c_finally s r =
     (case c_pcs s r of
        C_finalizing vid leader evt resp \<Rightarrow>
          (if leader then
             s\<lparr>c_is_set := (c_is_set s)(evt := True),
               comment_inflight_events :=
                 (if comment_inflight_events s vid = Some evt
                  then (comment_inflight_events s)(vid := None)
                  else comment_inflight_events s),
               c_pcs := (c_pcs s)(r := C_done resp)\<rparr>
           else s\<lparr>c_pcs := (c_pcs s)(r := C_done resp)\<rparr>)
      | _ \<Rightarrow> s)"

fun c_step :: "config \<Rightarrow> (nat \<Rightarrow> bool) \<Rightarrow> c_state \<Rightarrow> c_event \<Rightarrow> c_state" where
  "c_step cfg U s (C_tick d) = (if d \<ge> 0 then s\<lparr>c_clock := c_clock s + d\<rparr> else s)"
| "c_step cfg U s (C_request r video_url_or_id) = c_request cfg U s r video_url_or_id"
| "c_step cfg U s (C_register r) = c_register s r"
| "c_step cfg U s (C_wake r) = c_wake cfg s r"
| "c_step cfg U s (C_complete r fetched) = c_complete cfg s r fetched"
| "c_step cfg U s (C_finally r) = c_finally s r"

fun c_run :: "config \<Rightarrow> (nat \<Rightarrow> bool) \<Rightarrow> c_state \<Rightarrow> c_event list \<Rightarrow> c_state" where
  "c_run cfg U s [] = s"
| "c_run cfg U s (ev # evs) = c_run cfg U (c_step cfg U s ev) evs"

definition c_acquiring :: "c_state \<Rightarrow> nat \<Rightarrow> key \<Rightarrow> bool" where
  "c_acquiring s r k =
     (case c_pcs s r of C_fetching vid leader evt \<Rightarrow> vid = k | _ \<Rightarrow> False)"

definition c_leads :: "c_state \<Rightarrow> nat \<Rightarrow> key \<Rightarrow> bool" where
  "c_leads s r k =
     (case c_pcs s r of
        C_fetching vid leader evt \<Rightarrow> leader \<and> vid = k
      | C_finalizing vid leader evt resp \<Rightarrow> leader \<and> vid = k
      | _ \<Rightarrow> False)"


section \<open>Notions used in the statements\<close>

text \<open>
  How the fetch of the transcript endpoint can end: with \<open>NoTranscriptFound\<close> from the
  first call of \<open>get_transcript\<close> or, after a \<open>RequestException\<close>, from the second; and
  likewise with a payload. It ends without a payload when the first call raises and,
  if what it raises is a \<open>RequestException\<close>, the second call raises as well.
\<close>

definition ends_not_found :: "(nat \<Rightarrow> exc + 'p) \<Rightarrow> bool" where
  "ends_not_found calls \<longleftrightarrow>
     calls 0 = Inl NoTranscriptFound
     \<or> (calls 0 = Inl RequestException \<and> calls 1 = Inl NoTranscriptFound)"

definition ends_without_payload :: "(nat \<Rightarrow> exc + 'p) \<Rightarrow> bool" where
  "ends_without_payload calls \<longleftrightarrow>
     isl (calls 0) \<and> (calls 0 = Inl RequestException \<longrightarrow> isl (calls 1))"

definition ends_with_payload :: "(nat \<Rightarrow> exc + 'p) \<Rightarrow> 'p \<Rightarrow> bool" where
  "ends_with_payload calls payload \<longleftrightarrow>
     calls 0 = Inr payload \<or> (calls 0 = Inl RequestException \<and> calls 1 = Inr payload)"

text \<open>\<open>expires_before a b\<close>: both entries exist and the first expires earlier.\<close>

definition expires_before :: "real option \<Rightarrow> real option \<Rightarrow> bool" where
  "expires_before a b = (case a of None \<Rightarrow> False | Some x \<Rightarrow> (case b of None \<Rightarrow> False | Some y \<Rightarrow> x < y))"

text \<open>
  The \<open>try\<close> statement of the comment endpoint when the call of
  \<open>_fetch_comments_resilient\<close> returns what the strategies give.
\<close>

definition comments_acquire ::
  "(extractor \<Rightarrow> bool \<Rightarrow> pystr list outcome) \<Rightarrow> key \<Rightarrow>
   comments_response \<times> pystr list cache_write list" where
  "comments_acquire fetch_func vid = comments_try (Returned (fetch_comments_resilient fetch_func)) vid"

text \<open>A strategy that neither returns comments nor raises the permanent block.\<close>

definition unproductive :: "pystr list outcome \<Rightarrow> bool" where
  "unproductive out = (case out of Raised e \<Rightarrow> e \<noteq> PermanentCommentBlock | Returned cs \<Rightarrow> cs = [])"

section \<open>Concrete inputs\<close>

text \<open>The inputs at which the results below are evaluated.\<close>

definition pool_cooling :: "provider list" where
  "pool_cooling =
     [\<lparr>name = ''generic'', display = ''proxy:8080'', failure_count = 0, cooldown_until = 500\<rparr>,
      \<lparr>name = ''webshare'', display = ''p.webshare.io:80'', failure_count = 0,
       cooldown_until = 400\<rparr>,
      \<lparr>name = ''decodo'', display = ''gate.decodo.com:7000'', failure_count = 1,
       cooldown_until = 450\<rparr>]"

definition pool_mixed :: "provider list" where
  "pool_mixed =
     [\<lparr>name = ''generic'', display = ''proxy:8080'', failure_count = 0, cooldown_until = 500\<rparr>,
      \<lparr>name = ''webshare'', display = ''p.webshare.io:80'', failure_count = 1,
       cooldown_until = 0\<rparr>,
      \<lparr>name = ''decodo'', display = ''gate.decodo.com:7000'', failure_count = 0,
       cooldown_until = 90\<rparr>]"


definition no_providers_direct_hit :: "pystr transcript_run" where
  "no_providers_direct_hit =
     get_transcript default_config [] 0
       (\<lambda>proxy attempt. (Returned (Some (lit ''primary'')), 1))
       (\<lambda>step use_proxy. (Returned (Some (lit ''fallback'')), 1))"

definition slow_timedtext :: "string \<Rightarrow> bool \<Rightarrow> pystr option outcome \<times> real" where
  "slow_timedtext step use_proxy =
     (if step = ''timedtext'' then (Returned (Some (lit ''captions'')), 20)
      else (Returned (Some (lit ''subtitles'')), 7))"

definition empty_tiers :: "'v tiers" where
  "empty_tiers = \<lparr>memory = Map.empty, persistent = Map.empty\<rparr>"

definition rick :: request where
  "rick = \<lparr>video_id = lit ''dQw4w9WgXcQ'', cache_key = lit ''dQw4w9WgXcQ'', legacy_ok = True\<rparr>"

definition held_by_leader :: "pystr t_state" where
  "held_by_leader =
     t_run default_config id (t_init empty_tiers 0) [T_request 0 rick, T_register 0]"

definition follower_wrote :: "pystr t_state" where
  "follower_wrote =
     t_run default_config id (t_init empty_tiers 0)
       [T_request 0 rick, T_register 0, T_request 1 rick, T_register 1, T_tick 30,
        T_wake 1, T_complete 1 (\<lambda>i. Inr (lit ''text''))]"

definition nothing_anywhere :: "nat \<Rightarrow> exc + pystr" where
  "nothing_anywhere i =
     result (get_transcript default_config [] 0
       (\<lambda>proxy attempt. (Returned None, 1)) (\<lambda>step use_proxy. (Returned None, 1)))"

definition blocked_ytdlp :: "extractor \<Rightarrow> bool \<Rightarrow> pystr list outcome" where
  "blocked_ytdlp ex use_proxy =
     (if ex = YtDlp then Raised PermanentCommentBlock else Returned [])"

definition fetch_raises :: "c_event list" where
  "fetch_raises =
     [C_request 0 (lit ''https://youtu.be/dQw4w9WgXcQ''), C_register 0,
      C_complete 0 (Raised OtherException), C_finally 0]"

definition leader_fails :: "pystr t_event list" where
  "leader_fails =
     [T_request 0 rick, T_register 0, T_request 1 rick, T_register 1,
      T_request 2 rick, T_register 2,
      T_complete 0 (\<lambda>i. Inl OtherException), T_finally 0, T_wake 1, T_wake 2]"

definition waits_time_out :: "c_event list" where
  "waits_time_out =
     [C_request 0 (lit ''dQw4w9WgXcQ''), C_register 0,
      C_request 1 (lit ''dQw4w9WgXcQ''), C_register 1,
      C_request 2 (lit ''dQw4w9WgXcQ''), C_register 2,
      C_tick 15, C_wake 1, C_wake 2]"

definition t_arrived :: "pystr t_state" where
  "t_arrived = t_run default_config id (t_init empty_tiers 0) [T_request 0 rick]"

definition t_follower_woken :: "pystr t_state" where
  "t_follower_woken =
     t_run default_config id (t_init empty_tiers 0)
       [T_request 0 rick, T_register 0, T_request 1 rick, T_register 1,
        T_complete 0 (\<lambda>i. Inl OtherException), T_finally 0]"

definition c_arrived :: c_state where
  "c_arrived =
     c_run default_config (\<lambda>c. False) (c_init empty_tiers 0) [C_request 0 (lit ''dQw4w9WgXcQ'')]"

definition c_follower_timed_out :: c_state where
  "c_follower_timed_out =
     c_run default_config (\<lambda>c. False) (c_init empty_tiers 0)
       [C_request 0 (lit ''dQw4w9WgXcQ''), C_register 0,
        C_request 1 (lit ''dQw4w9WgXcQ''), C_register 1, C_tick 15]"

section \<open>Invariants used in the proofs\<close>

text \<open>
  Between calls the failure counter of a provider is not negative and stays below the
  threshold (when the threshold is at least 1; otherwise it stays 0).
\<close>

definition provider_inv :: "config \<Rightarrow> provider \<Rightarrow> bool" where
  "provider_inv cfg p \<longleftrightarrow>
     0 \<le> failure_count p \<and>
     (if 1 \<le> TRANSCRIPT_PROXY_FAILURE_THRESHOLD cfg
      then failure_count p < TRANSCRIPT_PROXY_FAILURE_THRESHOLD cfg else failure_count p = 0)"


text \<open>
  At most one requester leads under a key, and the key of a leader is in the table of
  in-flight events.
\<close>

definition t_inv :: "'p t_state \<Rightarrow> bool" where
  "t_inv s \<longleftrightarrow>
     (\<forall>r1 r2 k. t_leads s r1 k \<and> t_leads s r2 k \<longrightarrow> r1 = r2) \<and>
     (\<forall>r k. t_leads s r k \<longrightarrow> transcript_inflight_events s k \<noteq> None)"

text \<open>
  A request of the comment endpoint that has been accepted with a valid id: whenever a
  response has been fixed for it, the status of the response is 200.
\<close>

definition c_answered_ok :: "c_state \<Rightarrow> nat \<Rightarrow> bool" where
  "c_answered_ok s r =
     (case c_pcs s r of
        C_start \<Rightarrow> False
      | C_finalizing vid leader evt resp \<Rightarrow> status resp = 200
      | C_done resp \<Rightarrow> status resp = 200
      | _ \<Rightarrow> True)"

section \<open>Results about the identifier normalizer\<close>

lemma group11_shape: "group11 s = Some g \<Longrightarrow> video_id_shape g"
  by (auto simp: group11_def video_id_shape_def split: if_splits)

lemma match_here_shape: "match_here alts s = Some g \<Longrightarrow> video_id_shape g"
  by (induction alts) (auto split: option.splits dest: group11_shape)

lemma re_search_shape: "re_search alts s = Some g \<Longrightarrow> video_id_shape g"
  by (induction s) (auto split: option.splits dest: match_here_shape)

lemma try_patterns_shape: "try_patterns U ps s = Some g \<Longrightarrow> video_id_shape g"
  by (induction ps) (auto split: option.splits if_splits dest: re_search_shape)

text \<open>
  C5. The claim: whatever \<open>extract_video_id\<close> returns matches
  \<open>^[A-Za-z0-9_-]{11}$\<close>. The extraction patterns keep to that class, but the validator
  is written with \<open>\w\<close>, which for a \<open>str\<close> pattern also holds the letters and digits
  beyond ASCII. On the input of eleven times U+00E9 (the letter e with acute accent) the
  validator accepts, the input is returned as it is, and it is not of the shape the
  claim requires.
\<close>

theorem extract_video_id_accepts_non_ascii:
  "extract_video_id U (replicate 11 233) = Some (replicate 11 233)
   \<and> \<not> video_id_shape (replicate 11 233)"
  by (simp add: extract_video_id_def validate_video_id_def word_char_def
      video_id_shape_def id_char_def list_all_iff)

section \<open>Results about the proxy provider pool\<close>

lemma provider_inv_new: "provider_inv cfg (TranscriptProxyProvider n d)"
  by (simp add: provider_inv_def TranscriptProxyProvider_def)

lemma provider_inv_call: "provider_inv cfg p \<Longrightarrow> provider_inv cfg (apply_call cfg p c)"
  by (cases c) (auto simp: provider_inv_def record_success_def record_failure_def Let_def split: if_splits)

lemma provider_inv_calls: "provider_inv cfg p \<Longrightarrow> provider_inv cfg (apply_calls cfg p cs)"
  by (induction cs arbitrary: p) (auto intro: provider_inv_call)

text \<open>
  C6. For every provider and every sequence of calls made on it since it was created:
  \<open>record_success\<close> sets the failure counter and \<open>cooldown_until\<close> to 0.
  \<open>record_failure\<close> adds one to the counter; when the counter has then reached the
  threshold it sets \<open>cooldown_until\<close> to the present time plus the cooldown, sets the
  counter back to 0 and returns true, and otherwise it returns false. With a threshold
  of at least 1 the counter never passes the threshold, so that "has reached" is "is
  equal to". The counter is never negative.
\<close>

theorem provider_accounting:
  assumes "p = apply_calls cfg (TranscriptProxyProvider n d) cs"
  shows "record_success p = p\<lparr>failure_count := 0, cooldown_until := 0\<rparr>
     \<and> record_failure cfg now p =
         (if failure_count p + 1 \<ge> TRANSCRIPT_PROXY_FAILURE_THRESHOLD cfg
          then (True, p\<lparr>failure_count := 0,
                         cooldown_until := now + TRANSCRIPT_PROXY_COOLDOWN_SECONDS cfg\<rparr>)
          else (False, p\<lparr>failure_count := failure_count p + 1\<rparr>))
     \<and> (1 \<le> TRANSCRIPT_PROXY_FAILURE_THRESHOLD cfg \<longrightarrow>
          (fst (record_failure cfg now p) \<longleftrightarrow>
             failure_count p + 1 = TRANSCRIPT_PROXY_FAILURE_THRESHOLD cfg))
     \<and> 0 \<le> failure_count p
     \<and> 0 \<le> failure_count (snd (record_failure cfg now p))"
proof -
  have inv: "provider_inv cfg p"
    unfolding assms by (intro provider_inv_calls provider_inv_new)
  have 1: "record_success p = p\<lparr>failure_count := 0, cooldown_until := 0\<rparr>"
    by (simp add: record_success_def)
  have 2: "record_failure cfg now p =
         (if failure_count p + 1 \<ge> TRANSCRIPT_PROXY_FAILURE_THRESHOLD cfg
          then (True, p\<lparr>failure_count := 0,
                         cooldown_until := now + TRANSCRIPT_PROXY_COOLDOWN_SECONDS cfg\<rparr>)
          else (False, p\<lparr>failure_count := failure_count p + 1\<rparr>))"
    by (simp add: record_failure_def Let_def)
  have 3: "1 \<le> TRANSCRIPT_PROXY_FAILURE_THRESHOLD cfg \<longrightarrow>
          (fst (record_failure cfg now p) \<longleftrightarrow>
             failure_count p + 1 = TRANSCRIPT_PROXY_FAILURE_THRESHOLD cfg)"
    using inv by (auto simp: record_failure_def Let_def provider_inv_def)
  have 4: "0 \<le> failure_count p \<and> 0 \<le> failure_count (snd (record_failure cfg now p))"
    using inv by (auto simp: record_failure_def Let_def provider_inv_def)
  from 1 2 3 4 show ?thesis by blast
qed

theorem provider_accounting_witness:
  "record_failure default_config 10
      (apply_calls default_config (TranscriptProxyProvider ''webshare'' ''p.webshare.io:80'')
         [Failure 3, Failure 4, Success, Failure 5])
   = (True,
      \<lparr>name = ''webshare'', display = ''p.webshare.io:80'', failure_count = 0,
       cooldown_until = 310\<rparr>)
   \<and> (1::int) \<le> TRANSCRIPT_PROXY_FAILURE_THRESHOLD default_config
   \<and> failure_count
        (apply_calls default_config (TranscriptProxyProvider ''webshare'' ''p.webshare.io:80'')
           [Failure 3, Failure 4, Success, Failure 5]) + 1
      = TRANSCRIPT_PROXY_FAILURE_THRESHOLD default_config"
  using provider_accounting [OF refl, where cfg = default_config and now = 10
      and n = "''webshare''" and d = "''p.webshare.io:80''"
      and cs = "[Failure 3, Failure 4, Success, Failure 5]"]
  by (simp add: default_config_def record_failure_def record_success_def
      TranscriptProxyProvider_def)

lemma attempts_loop_log:
  "attempts_loop cfg f n k p now lg = (r, p', t, lg') \<Longrightarrow>
   cooldown_break lg' = cooldown_break lg \<and> provider lg' = provider lg
   \<and> skipped_due_to_cooldown lg' = skipped_due_to_cooldown lg"
proof (induction n arbitrary: k p now lg)
  case 0
  then show ?case by auto
next
  case (Suc n)
  obtain out d where f: "f (Some (name p)) k = (out, d)" by (cases "f (Some (name p)) k")
  show ?case
  proof (cases out)
    case (Raised e)
    obtain b q where rf: "record_failure cfg (now + d) p = (b, q)"
      by (cases "record_failure cfg (now + d) p")
    from Suc.prems f Raised rf Suc.IH show ?thesis by fastforce
  next
    case (Returned x)
    show ?thesis
    proof (cases x)
      case None
      obtain b q where rf: "record_failure cfg (now + d) p = (b, q)"
        by (cases "record_failure cfg (now + d) p")
      from Suc.prems f Returned None rf Suc.IH show ?thesis by fastforce
    next
      case (Some payload)
      with Suc.prems f Returned show ?thesis by auto
    qed
  qed
qed

lemma providers_loop_no_break:
  "0 < idx \<Longrightarrow> providers_loop cfg f idx ps now = (r, ps', t, lgs) \<Longrightarrow>
   filter cooldown_break lgs = []"
proof (induction ps arbitrary: idx now r ps' t lgs)
  case Nil
  then show ?case by simp
next
  case (Cons p ps)
  show ?case
  proof (cases "is_available now p")
    case False
    obtain r1 ps1 t1 lgs1 where rest: "providers_loop cfg f (Suc idx) ps now = (r1, ps1, t1, lgs1)"
      by (metis prod_cases4)
    from Cons.IH [OF _ rest] have "filter cooldown_break lgs1 = []" by simp
    with Cons.prems False rest show ?thesis by auto
  next
    case True
    obtain r0 p0 t0 lg0 where att: "attempts_loop cfg f
                (nat (TRANSCRIPT_PROXY_ATTEMPTS_PER_PROVIDER cfg)) 1 p now
                \<lparr>provider = name p, cooldown_break = False,
                 skipped_due_to_cooldown = False, attempts = [], cooldown_started = False\<rparr>
              = (r0, p0, t0, lg0)"
      by (metis prod_cases4)
    from attempts_loop_log [OF att] have lg0: "\<not> cooldown_break lg0" by simp
    show ?thesis
    proof (cases r0)
      case (Some payload)
      with Cons.prems True att lg0 show ?thesis by auto
    next
      case None
      obtain r1 ps1 t1 lgs1 where rest: "providers_loop cfg f (Suc idx) ps t0 = (r1, ps1, t1, lgs1)"
        by (metis prod_cases4)
      from Cons.IH [OF _ rest] have "filter cooldown_break lgs1 = []" by simp
      with Cons.prems True att lg0 None rest show ?thesis by auto
    qed
  qed
qed

lemma providers_loop_first_break:
  assumes "\<not> is_available now p"
    and "providers_loop cfg f 0 (p # ps) now = (r, ps', t, lgs)"
  shows "map provider (filter cooldown_break lgs) = [name p]"
proof -
  obtain r0 p0 t0 lg0 where att: "attempts_loop cfg f
                (nat (TRANSCRIPT_PROXY_ATTEMPTS_PER_PROVIDER cfg)) 1 p now
                \<lparr>provider = name p, cooldown_break = True,
                 skipped_due_to_cooldown = False, attempts = [], cooldown_started = False\<rparr>
              = (r0, p0, t0, lg0)"
    by (metis prod_cases4)
  from attempts_loop_log [OF att] have lg0: "cooldown_break lg0" "provider lg0 = name p" by simp_all
  show ?thesis
  proof (cases r0)
    case (Some payload)
    with assms att lg0 show ?thesis by auto
  next
    case None
    obtain r1 ps1 t1 lgs1 where rest: "providers_loop cfg f (Suc 0) ps t0 = (r1, ps1, t1, lgs1)"
      by (metis prod_cases4)
    from providers_loop_no_break [OF _ rest] have "filter cooldown_break lgs1 = []" by simp
    with assms att lg0 None rest show ?thesis by auto
  qed
qed


lemma select_cases:
  "select_transcript_proxy_providers ps now =
     (if filter (\<lambda>p. cooldown_until p \<le> now) ps \<noteq> []
      then filter (\<lambda>p. cooldown_until p \<le> now) ps
      else sort_key cooldown_until ps)"
proof -
  have "is_available now = (\<lambda>p. cooldown_until p \<le> now)"
    by (rule ext) (simp add: is_available_def)
  then show ?thesis
    by (cases ps) (simp_all add: select_transcript_proxy_providers_def Let_def)
qed

lemma bypass_once:
  assumes "ps \<noteq> []" and "filter (\<lambda>p. cooldown_until p \<le> now) ps = []"
  shows "map provider (filter cooldown_break
            (proxy_log (get_transcript cfg ps now f ad)))
         = [name (hd (sort_key cooldown_until ps))]"
proof -
  let ?seq = "sort_key cooldown_until ps"
  from assms have sel: "select_transcript_proxy_providers ps now = ?seq"
    by (simp add: select_cases)
  from assms(1) have "length ?seq \<noteq> 0" by simp
  then obtain p0 rest where seq: "?seq = p0 # rest" by (cases ?seq) auto
  then have "p0 \<in> set ps" by (metis list.set_intros(1) set_sort)
  with assms(2) have cool: "\<not> is_available now p0"
    by (auto simp: is_available_def filter_empty_conv)
  obtain r ps' t lgs where lp: "providers_loop cfg f 0 (p0 # rest) now = (r, ps', t, lgs)"
    by (metis prod_cases4)
  from providers_loop_first_break [OF cool lp]
  have brk: "map provider (filter cooldown_break lgs) = [name p0]" .
  have "proxy_log (get_transcript cfg ps now f ad) = lgs"
    by (cases r) (simp_all add: get_transcript_def sel seq lp del: providers_loop.simps)
  with brk seq show ?thesis by simp
qed

text \<open>
  C7. For every pool and clock reading: when some provider has
  \<open>cooldown_until \<le> now\<close>, the selection is exactly those providers in their configured
  order. Otherwise it is all providers sorted by \<open>cooldown_until\<close>, the one that
  recovers soonest first; and in a call of \<open>get_transcript\<close> exactly one provider is
  then tried in spite of its cooldown, the first of that order (it is given the
  configured number of attempts; every later provider is tried only if its cooldown has
  ended when its turn comes).
\<close>

theorem provider_selection:
  "(filter (\<lambda>p. cooldown_until p \<le> now) ps \<noteq> [] \<longrightarrow>
      select_transcript_proxy_providers ps now = filter (\<lambda>p. cooldown_until p \<le> now) ps)
   \<and> (filter (\<lambda>p. cooldown_until p \<le> now) ps = [] \<longrightarrow>
      select_transcript_proxy_providers ps now = sort_key cooldown_until ps
      \<and> sorted (map cooldown_until (select_transcript_proxy_providers ps now))
      \<and> mset (select_transcript_proxy_providers ps now) = mset ps)
   \<and> (ps \<noteq> [] \<and> filter (\<lambda>p. cooldown_until p \<le> now) ps = [] \<longrightarrow>
      map provider (filter cooldown_break
         (proxy_log (get_transcript cfg ps now fetch_api_once adapter)))
      = [name (hd (sort_key cooldown_until ps))])"
  by (simp add: select_cases bypass_once)

theorem provider_selection_witness:
  "map name (select_transcript_proxy_providers pool_mixed 100) = [''webshare'', ''decodo'']
   \<and> map name (select_transcript_proxy_providers pool_cooling 100)
       = [''webshare'', ''decodo'', ''generic'']
   \<and> map provider (filter cooldown_break
         (proxy_log (get_transcript default_config pool_cooling 100
            (\<lambda>proxy attempt. (Returned None, 1)) (\<lambda>step use_proxy. (Returned (Some ''text''), 1)))))
       = [''webshare'']"
  using provider_selection [where ps = pool_mixed and now = 100]
    provider_selection [where ps = pool_cooling and now = 100 and cfg = default_config
      and fetch_api_once = "\<lambda>proxy attempt. (Returned None, 1)"
      and adapter = "\<lambda>step use_proxy. (Returned (Some ''text''), 1)"]
  by (simp add: pool_mixed_def pool_cooling_def)


section \<open>Results about the transcript fallback stage\<close>

lemma run_fallbacks_unfold:
  "run_fallbacks adapter =
     (case first_result (as_completed 12
        [(''timedtext'', adapter ''timedtext'' False),
         (''yt-dlp_no_proxy'', adapter ''yt-dlp_no_proxy'' False)]) of
        Some payload \<Rightarrow> Inr payload
      | None \<Rightarrow> Inl TypeError)"
  by (simp add: run_fallbacks_def fallback_attempts_def)

lemma run_fallbacks_payload:
  assumes "first_result (as_completed 12
        [(''timedtext'', adapter ''timedtext'' False),
         (''yt-dlp_no_proxy'', adapter ''yt-dlp_no_proxy'' False)]) = Some payload"
  shows "run_fallbacks adapter = Inr payload"
  using assms by (simp add: run_fallbacks_unfold)

lemma run_fallbacks_nothing:
  assumes "first_result (as_completed 12
        [(''timedtext'', adapter ''timedtext'' False),
         (''yt-dlp_no_proxy'', adapter ''yt-dlp_no_proxy'' False)]) = None"
  shows "run_fallbacks adapter = Inl TypeError"
  using assms by (simp add: run_fallbacks_unfold)

lemma run_fallbacks_timeout:
  assumes "12 < snd (adapter ''timedtext'' False)"
    and "12 < snd (adapter ''yt-dlp_no_proxy'' False)"
  shows "run_fallbacks adapter = Inl TypeError"
proof -
  obtain o1 d1 where a1: "adapter ''timedtext'' False = (o1, d1)"
    by (cases "adapter ''timedtext'' False")
  obtain o2 d2 where a2: "adapter ''yt-dlp_no_proxy'' False = (o2, d2)"
    by (cases "adapter ''yt-dlp_no_proxy'' False")
  from assms a1 a2 show ?thesis
    by (simp add: run_fallbacks_unfold as_completed_def)
qed

lemma select_nonempty:
  assumes "providers \<noteq> []"
  shows "select_transcript_proxy_providers providers now \<noteq> []"
proof -
  from assms have "length (sort_key cooldown_until providers) \<noteq> 0" by simp
  then have "sort_key cooldown_until providers \<noteq> []" by fastforce
  with assms show ?thesis
    by (simp add: select_transcript_proxy_providers_def Let_def)
qed

lemma attempts_loop_all_fail:
  assumes "\<And>proxy k payload. fst (f proxy k) \<noteq> Returned (Some payload)"
  shows "fst (attempts_loop cfg f n k p now lg) = None"
proof (induction n arbitrary: k p now lg)
  case 0
  then show ?case by simp
next
  case (Suc n)
  obtain out d where fk: "f (Some (name p)) k = (out, d)" by (cases "f (Some (name p)) k")
  with assms [of "Some (name p)" k] have nopay: "\<And>payload. out \<noteq> Returned (Some payload)"
    by simp
  obtain b q where rf: "record_failure cfg (now + d) p = (b, q)"
    by (cases "record_failure cfg (now + d) p")
  show ?case
  proof (cases out)
    case (Raised e)
    with fk rf Suc.IH show ?thesis by simp
  next
    case (Returned x)
    with nopay have "x = None" by (cases x) auto
    with Returned fk rf Suc.IH show ?thesis by simp
  qed
qed

lemma providers_loop_all_fail:
  assumes "\<And>proxy k payload. fst (f proxy k) \<noteq> Returned (Some payload)"
  shows "fst (providers_loop cfg f idx ps now) = None"
proof (induction ps arbitrary: idx now)
  case Nil
  then show ?case by simp
next
  case (Cons p ps)
  show ?case
  proof (cases "\<not> is_available now p \<and> idx > 0")
    case True
    obtain r1 ps1 t1 lgs1 where rest:
      "providers_loop cfg f (Suc idx) ps now = (r1, ps1, t1, lgs1)"
      by (metis prod_cases4)
    with Cons.IH [of "Suc idx" now] have "r1 = None" by simp
    with True rest show ?thesis by simp
  next
    case False
    obtain r0 p0 t0 lg0 where att: "attempts_loop cfg f
        (nat (TRANSCRIPT_PROXY_ATTEMPTS_PER_PROVIDER cfg)) 1 p now
        \<lparr>provider = name p, cooldown_break = \<not> is_available now p,
         skipped_due_to_cooldown = False, attempts = [], cooldown_started = False\<rparr>
        = (r0, p0, t0, lg0)"
      by (metis prod_cases4)
    have "fst (attempts_loop cfg f
        (nat (TRANSCRIPT_PROXY_ATTEMPTS_PER_PROVIDER cfg)) 1 p now
        \<lparr>provider = name p, cooldown_break = \<not> is_available now p,
         skipped_due_to_cooldown = False, attempts = [], cooldown_started = False\<rparr>) = None"
      by (rule attempts_loop_all_fail [OF assms])
    with att have r0: "r0 = None" by simp
    obtain r1 ps1 t1 lgs1 where rest:
      "providers_loop cfg f (Suc idx) ps t0 = (r1, ps1, t1, lgs1)"
      by (metis prod_cases4)
    with Cons.IH [of "Suc idx" t0] have "r1 = None" by simp
    then show ?thesis using False att r0 rest
      by (auto simp: Let_def)
  qed
qed

text \<open>
  C8, as the code has it. The second stage is reached when providers are configured and
  the proxy stage ends without a payload (as it does when every attempt of the primary
  adapter fails), or when no provider is configured and the one direct call of the
  primary adapter returns nothing or raises an error of the transcript library. Then
  the timedtext adapter and the yt-dlp adapter are both started, both without a proxy;
  of the tasks that finish within 12 seconds the first one, in order of finishing, that
  returns a payload gives the result; when there is none, in particular when both tasks
  take longer than 12 seconds, no payload is returned: the function ends with an
  exception. A payload from the proxy stage or from the direct call is returned without
  the second stage, and any other exception of the direct call is passed on.
\<close>

theorem fallback_stage:
  "(((providers \<noteq> [] \<and>
       fst (providers_loop cfg fetch_api_once 0
              (select_transcript_proxy_providers providers now) now) = None)
    \<or> (providers = [] \<and>
       (fst (fetch_api_once None 1) = Returned None
        \<or> fst (fetch_api_once None 1) = Raised NoTranscriptFound
        \<or> fst (fetch_api_once None 1) = Raised CouldNotRetrieveTranscript)))
    \<longrightarrow>
      fallback_steps (get_transcript cfg providers now fetch_api_once adapter)
        = [(''timedtext'', False), (''yt-dlp_no_proxy'', False)]
      \<and> (first_result (as_completed 12
              [(''timedtext'', adapter ''timedtext'' False),
               (''yt-dlp_no_proxy'', adapter ''yt-dlp_no_proxy'' False)]) = Some found
           \<longrightarrow> result (get_transcript cfg providers now fetch_api_once adapter) = Inr found)
      \<and> (first_result (as_completed 12
              [(''timedtext'', adapter ''timedtext'' False),
               (''yt-dlp_no_proxy'', adapter ''yt-dlp_no_proxy'' False)]) = None
           \<longrightarrow> isl (result (get_transcript cfg providers now fetch_api_once adapter)))
      \<and> (12 < snd (adapter ''timedtext'' False) \<and> 12 < snd (adapter ''yt-dlp_no_proxy'' False)
           \<longrightarrow> isl (result (get_transcript cfg providers now fetch_api_once adapter))))
   \<and> (providers \<noteq> [] \<and>
       fst (providers_loop cfg fetch_api_once 0
              (select_transcript_proxy_providers providers now) now) = Some found
       \<longrightarrow> result (get_transcript cfg providers now fetch_api_once adapter) = Inr found
         \<and> fallback_steps (get_transcript cfg providers now fetch_api_once adapter) = [])
   \<and> (providers = [] \<and> fst (fetch_api_once None 1) = Returned (Some found)
       \<longrightarrow> result (get_transcript cfg providers now fetch_api_once adapter) = Inr found
         \<and> fallback_steps (get_transcript cfg providers now fetch_api_once adapter) = [])
   \<and> (providers = [] \<and> fst (fetch_api_once None 1) = Raised e
        \<and> e \<noteq> NoTranscriptFound \<and> e \<noteq> CouldNotRetrieveTranscript
       \<longrightarrow> result (get_transcript cfg providers now fetch_api_once adapter) = Inl e
         \<and> fallback_steps (get_transcript cfg providers now fetch_api_once adapter) = [])
   \<and> ((\<forall>proxy k payload. fst (fetch_api_once proxy k) \<noteq> Returned (Some payload))
       \<longrightarrow> fst (providers_loop cfg fetch_api_once 0
              (select_transcript_proxy_providers providers now) now) = None)"
proof -
  let ?run = "get_transcript cfg providers now fetch_api_once adapter"
  let ?seq = "select_transcript_proxy_providers providers now"
  let ?done = "first_result (as_completed 12
              [(''timedtext'', adapter ''timedtext'' False),
               (''yt-dlp_no_proxy'', adapter ''yt-dlp_no_proxy'' False)])"
  have stage: "result ?run = run_fallbacks adapter \<and> fallback_steps ?run = fallback_attempts"
    if a: "(providers \<noteq> [] \<and> fst (providers_loop cfg fetch_api_once 0 ?seq now) = None)
         \<or> (providers = [] \<and>
            (fst (fetch_api_once None 1) = Returned None
             \<or> fst (fetch_api_once None 1) = Raised NoTranscriptFound
             \<or> fst (fetch_api_once None 1) = Raised CouldNotRetrieveTranscript))"
    using a
  proof
    assume b: "providers \<noteq> [] \<and> fst (providers_loop cfg fetch_api_once 0 ?seq now) = None"
    have ne: "?seq \<noteq> []" using b by (simp add: select_nonempty)
    obtain ps' t lgs where "providers_loop cfg fetch_api_once 0 ?seq now = (None, ps', t, lgs)"
      using b by (metis fst_conv prod_cases4)
    with ne show ?thesis by (simp add: get_transcript_def)
  next
    assume b: "providers = [] \<and>
            (fst (fetch_api_once None 1) = Returned None
             \<or> fst (fetch_api_once None 1) = Raised NoTranscriptFound
             \<or> fst (fetch_api_once None 1) = Raised CouldNotRetrieveTranscript)"
    then show ?thesis
      by (auto simp: get_transcript_def select_transcript_proxy_providers_def retrieval_error_def)
  qed
  have first: "((providers \<noteq> [] \<and> fst (providers_loop cfg fetch_api_once 0 ?seq now) = None)
         \<or> (providers = [] \<and>
            (fst (fetch_api_once None 1) = Returned None
             \<or> fst (fetch_api_once None 1) = Raised NoTranscriptFound
             \<or> fst (fetch_api_once None 1) = Raised CouldNotRetrieveTranscript)))
    \<longrightarrow>
      fallback_steps ?run = [(''timedtext'', False), (''yt-dlp_no_proxy'', False)]
      \<and> (?done = Some found \<longrightarrow> result ?run = Inr found)
      \<and> (?done = None \<longrightarrow> isl (result ?run))
      \<and> (12 < snd (adapter ''timedtext'' False) \<and> 12 < snd (adapter ''yt-dlp_no_proxy'' False)
           \<longrightarrow> isl (result ?run))"
    using stage run_fallbacks_timeout [of adapter] run_fallbacks_payload [of adapter found]
      run_fallbacks_nothing [of adapter]
    by (simp add: fallback_attempts_def)
  have proxy_hit: "providers \<noteq> [] \<and> fst (providers_loop cfg fetch_api_once 0 ?seq now) = Some found
       \<longrightarrow> result ?run = Inr found \<and> fallback_steps ?run = []"
  proof
    assume b: "providers \<noteq> [] \<and> fst (providers_loop cfg fetch_api_once 0 ?seq now) = Some found"
    have ne: "?seq \<noteq> []" using b by (simp add: select_nonempty)
    obtain ps' t lgs where
      "providers_loop cfg fetch_api_once 0 ?seq now = (Some found, ps', t, lgs)"
      using b by (metis fst_conv prod_cases4)
    with ne show "result ?run = Inr found \<and> fallback_steps ?run = []"
      by (simp add: get_transcript_def)
  qed
  have direct_hit: "providers = [] \<and> fst (fetch_api_once None 1) = Returned (Some found)
       \<longrightarrow> result ?run = Inr found \<and> fallback_steps ?run = []"
    by (simp add: get_transcript_def select_transcript_proxy_providers_def)
  have direct_raise: "providers = [] \<and> fst (fetch_api_once None 1) = Raised e
        \<and> e \<noteq> NoTranscriptFound \<and> e \<noteq> CouldNotRetrieveTranscript
       \<longrightarrow> result ?run = Inl e \<and> fallback_steps ?run = []"
    by (simp add: get_transcript_def select_transcript_proxy_providers_def retrieval_error_def)
  have all_fail: "(\<forall>proxy k payload. fst (fetch_api_once proxy k) \<noteq> Returned (Some payload))
       \<longrightarrow> fst (providers_loop cfg fetch_api_once 0 ?seq now) = None"
    using providers_loop_all_fail [of fetch_api_once cfg 0 ?seq now] by blast
  from first proxy_hit direct_hit direct_raise all_fail show ?thesis by blast
qed

text \<open>
  C8 as stated fails. With no provider configured the primary adapter is first called
  directly, and when that call returns a payload the payload is the result: the two
  fallback adapters are not started.
\<close>

theorem fallback_stage_counterexample:
  "fallback_steps no_providers_direct_hit = []
   \<and> result no_providers_direct_hit = Inr (lit ''primary'')
   \<and> \<not> (fallback_steps no_providers_direct_hit = fallback_attempts
         \<or> result no_providers_direct_hit
             = run_fallbacks (\<lambda>step use_proxy. (Returned (Some (lit ''fallback'')), 1)))"
  by (simp add: no_providers_direct_hit_def get_transcript_def
      select_transcript_proxy_providers_def run_fallbacks_unfold as_completed_def
      fallback_attempts_def lit_def)

lemma cooling_all_fail:
  "fst (providers_loop default_config (\<lambda>proxy attempt. (Raised OtherException, 2)) 0
          (select_transcript_proxy_providers pool_cooling 100) 100) = None"
  by (simp add: pool_cooling_def default_config_def select_transcript_proxy_providers_def
      is_available_def record_failure_def eval_nat_numeral)


theorem fallback_stage_witness:
  "result (get_transcript default_config [] 0 (\<lambda>proxy attempt. (Returned None, 1)) slow_timedtext)
     = Inr (lit ''subtitles'')
   \<and> fallback_steps (get_transcript default_config pool_cooling 100
        (\<lambda>proxy attempt. (Raised OtherException, 2))
        (\<lambda>step use_proxy. (Returned (None :: pystr option), 13)))
     = [(''timedtext'', False), (''yt-dlp_no_proxy'', False)]
   \<and> isl (result (get_transcript default_config pool_cooling 100
        (\<lambda>proxy attempt. (Raised OtherException, 2))
        (\<lambda>step use_proxy. (Returned (None :: pystr option), 13))))
   \<and> result (get_transcript default_config [] 0
        (\<lambda>proxy attempt. (Raised OtherException, 1)) slow_timedtext)
     = Inl OtherException"
proof -
  have direct: "result (get_transcript default_config [] 0
                  (\<lambda>proxy attempt. (Returned None, 1)) slow_timedtext)
                = Inr (lit ''subtitles'')"
    using fallback_stage [where providers = "[]" and found = "lit ''subtitles''"
        and fetch_api_once = "\<lambda>proxy attempt. (Returned None, 1)"
        and adapter = slow_timedtext and cfg = default_config and now = 0]
    by (simp add: slow_timedtext_def as_completed_def)
  have ne: "pool_cooling \<noteq> []" by (simp add: pool_cooling_def)
  have proxies: "fallback_steps (get_transcript default_config pool_cooling 100
          (\<lambda>proxy attempt. (Raised OtherException, 2))
          (\<lambda>step use_proxy. (Returned (None :: pystr option), 13)))
        = [(''timedtext'', False), (''yt-dlp_no_proxy'', False)]
      \<and> isl (result (get_transcript default_config pool_cooling 100
          (\<lambda>proxy attempt. (Raised OtherException, 2))
          (\<lambda>step use_proxy. (Returned (None :: pystr option), 13))))"
    using fallback_stage [where providers = pool_cooling and now = 100 and cfg = default_config
        and fetch_api_once = "\<lambda>proxy attempt. (Raised OtherException, 2)"
        and adapter = "\<lambda>step use_proxy. (Returned (None :: pystr option), 13)"]
    by (simp add: cooling_all_fail ne)
  have raised: "result (get_transcript default_config [] 0
        (\<lambda>proxy attempt. (Raised OtherException, 1)) slow_timedtext)
     = Inl OtherException"
    using fallback_stage [where providers = "[]" and e = OtherException
        and fetch_api_once = "\<lambda>proxy attempt. (Raised OtherException, 1)"
        and adapter = slow_timedtext and cfg = default_config and now = 0]
    by simp
  from direct proxies raised show ?thesis by simp
qed

section \<open>Results about the cache writes of the transcript endpoint\<close>

lemmas machine_defs =
  t_init_def empty_tiers_def rick_def t_request_def t_register_def
  t_wake_def t_complete_def t_finally_def transcript_lookup_def
  transcript_lookup_after_wait_def ttl_get_def ttl_set_def ttl_contains_def apply_writes_def
  default_config_def

lemma held_by_leader_eval:
  "t_pcs held_by_leader 0 = T_fetching rick True"
  "t_clock held_by_leader = 0"
  "t_tiers held_by_leader = empty_tiers"
  by (simp_all add: held_by_leader_def machine_defs)

lemma follower_wrote_eval:
  "t_pcs follower_wrote 0 = T_fetching rick True"
  "t_clock follower_wrote = 30"
  "t_tiers follower_wrote =
     \<lparr>memory = [cache_key rick \<mapsto> (Dict (lit ''text''), 7230)],
      persistent = [cache_key rick \<mapsto> Dict (lit ''text'')]\<rparr>"
  by (simp_all add: follower_wrote_def machine_defs numeral_2_eq_2)

lemma nothing_anywhere_eval: "nothing_anywhere i = Inl TypeError"
  by (simp add: nothing_anywhere_def get_transcript_def select_transcript_proxy_providers_def
      run_fallbacks_def fallback_attempts_def as_completed_def)

lemma transcript_fetch_not_found:
  assumes "ends_not_found calls"
  shows "transcript_fetch 2 0 calls c now req =
           (not_available_response (Some ''public, max-age=600''),
            if \<not> ttl_contains c now (cache_key req)
            then [Memory_write (cache_key req) NOT_AVAILABLE,
                  Persistent_write (cache_key req) NOT_AVAILABLE]
            else [])"
  using assms by (auto simp: ends_not_found_def numeral_2_eq_2)

lemma transcript_fetch_payload:
  assumes "ends_with_payload calls payload"
  shows "transcript_fetch 2 0 calls c now req =
           (payload_response req payload (Some ''public, max-age=3600''),
            [Memory_write (cache_key req) (Dict payload),
             Persistent_write (cache_key req) (Dict payload)])"
  using assms by (auto simp: ends_with_payload_def numeral_2_eq_2)

lemma t_complete_tiers:
  assumes "t_pcs s r = T_fetching req leader"
  shows "t_tiers (t_complete cfg s r calls) =
           apply_writes (TRANSCRIPT_CACHE_TTL cfg) (t_clock s) (t_tiers s)
             (snd (transcript_fetch 2 0 calls (memory (t_tiers s)) (t_clock s) req))"
  using assms by (simp add: t_complete_def split: prod.splits)

lemma t_complete_pc:
  assumes "t_pcs s r = T_fetching req leader"
  shows "t_pcs (t_complete cfg s r calls) r =
           T_finalizing req leader
             (fst (transcript_fetch 2 0 calls (memory (t_tiers s)) (t_clock s) req))"
  using assms by (simp add: t_complete_def split: prod.splits)

lemma transcript_fetch_no_payload:
  assumes "ends_without_payload calls" and "ttl_contains c now (cache_key req)"
  shows "snd (transcript_fetch 2 0 calls c now req) = []"
proof -
  from assms(1) obtain e where e: "calls 0 = Inl e"
    by (cases "calls 0") (simp_all add: ends_without_payload_def)
  show ?thesis
  proof (cases "e = RequestException")
    case True
    with assms(1) e obtain e' where "calls 1 = Inl e'"
      by (cases "calls 1") (simp_all add: ends_without_payload_def)
    with True e assms(2) show ?thesis by (simp add: numeral_2_eq_2)
  next
    case False
    with e assms(2) show ?thesis by (simp add: numeral_2_eq_2)
  qed
qed

lemma transcript_fetch_marker_guard:
  assumes "ttl_contains c now (cache_key req)"
  shows "Memory_write (cache_key req) NOT_AVAILABLE \<notin> set (snd (transcript_fetch 2 0 calls c now req))
       \<and> Persistent_write (cache_key req) NOT_AVAILABLE
            \<notin> set (snd (transcript_fetch 2 0 calls c now req))"
proof (cases "calls 0")
  case (Inr payload)
  then show ?thesis by (simp add: numeral_2_eq_2 NOT_AVAILABLE_def)
next
  case (Inl e)
  show ?thesis
  proof (cases "e = RequestException")
    case False
    with Inl assms show ?thesis by (simp add: numeral_2_eq_2)
  next
    case True
    show ?thesis
    proof (cases "calls 1")
      case (Inr payload)
      with True Inl show ?thesis by (simp add: numeral_2_eq_2 NOT_AVAILABLE_def)
    next
      case e': (Inl e')
      with True Inl assms show ?thesis by (simp add: numeral_2_eq_2)
    qed
  qed
qed

text \<open>
  C10. When the fetch of a leader or promoted follower ends without a payload while the
  memory tier holds a live entry under the cache key, the endpoint writes nothing: both
  tiers are as they were, so the value held stays. This covers the fetch that ends in
  \<open>NoTranscriptFound\<close>, whose handler writes the marker only if the key is not in the
  memory tier, and every other exception of the fetch, whose handlers write nothing at
  all. However the fetch ends, the marker is written to neither tier while the memory
  tier holds a live entry under the key.
\<close>

theorem negative_marker_only_when_absent:
  assumes "t_pcs s r = T_fetching req leader"
    and "ttl_contains (memory (t_tiers s)) (t_clock s) (cache_key req)"
  shows "(ends_without_payload calls \<longrightarrow>
            snd (transcript_fetch 2 0 calls (memory (t_tiers s)) (t_clock s) req) = []
            \<and> t_tiers (t_complete cfg s r calls) = t_tiers s)
       \<and> (ends_not_found calls \<longrightarrow> ends_without_payload calls)
       \<and> Memory_write (cache_key req) NOT_AVAILABLE
            \<notin> set (snd (transcript_fetch 2 0 calls (memory (t_tiers s)) (t_clock s) req))
       \<and> Persistent_write (cache_key req) NOT_AVAILABLE
            \<notin> set (snd (transcript_fetch 2 0 calls (memory (t_tiers s)) (t_clock s) req))"
proof -
  have kept: "ends_without_payload calls \<longrightarrow>
            snd (transcript_fetch 2 0 calls (memory (t_tiers s)) (t_clock s) req) = []
            \<and> t_tiers (t_complete cfg s r calls) = t_tiers s"
    by (simp add: t_complete_tiers [OF assms(1)] transcript_fetch_no_payload [OF _ assms(2)]
        apply_writes_def)
  have covers: "ends_not_found calls \<longrightarrow> ends_without_payload calls"
    by (auto simp: ends_not_found_def ends_without_payload_def)
  from kept covers transcript_fetch_marker_guard [OF assms(2), of calls] show ?thesis
    by simp
qed

theorem negative_marker_only_when_absent_witness:
  "t_pcs follower_wrote 0 = T_fetching rick True
   \<and> ttl_contains (memory (t_tiers follower_wrote)) (t_clock follower_wrote) (cache_key rick)
   \<and> nothing_anywhere 0 = Inl TypeError
   \<and> ends_without_payload nothing_anywhere
   \<and> t_tiers (t_complete default_config follower_wrote 0 nothing_anywhere)
       = t_tiers follower_wrote
   \<and> ttl_get (memory (t_tiers (t_complete default_config follower_wrote 0 nothing_anywhere)))
         30 (cache_key rick) = Some (Dict (lit ''text''))
   \<and> persistent (t_tiers (t_complete default_config follower_wrote 0 nothing_anywhere))
         (cache_key rick) = Some (Dict (lit ''text''))"
proof -
  have np: "ends_without_payload nothing_anywhere"
    by (simp add: ends_without_payload_def nothing_anywhere_eval)
  have held: "ttl_contains (memory (t_tiers follower_wrote)) (t_clock follower_wrote)
                (cache_key rick)"
    by (simp add: follower_wrote_eval ttl_contains_def ttl_get_def)
  from negative_marker_only_when_absent
         [OF follower_wrote_eval(1) held, of nothing_anywhere default_config]
    np held
  show ?thesis
    by (simp add: follower_wrote_eval(1,2) nothing_anywhere_eval
          follower_wrote_eval(3) [symmetric])
      (simp add: follower_wrote_eval ttl_get_def)
qed

text \<open>
  C4 fails in the code. At a request for which nothing is found anywhere (no provider is
  configured, the direct call of the primary adapter returns nothing, and so do both
  tasks of the second stage) while neither tier holds an entry under the cache key,
  \<open>get_transcript\<close> ends in \<open>TypeError\<close>, not in \<open>NoTranscriptFound\<close>. The endpoint's
  handler for \<open>NoTranscriptFound\<close>, the one that stores the marker
  \<open>"__NOT_AVAILABLE__"\<close>, is passed over; the handler for \<open>Exception\<close> answers 500 with
  \<open>Transcript fetch failed\<close> and writes nothing. After the request neither tier holds
  an entry under the cache key: no marker is stored.
\<close>

theorem exhaustion_stores_no_marker:
  "nothing_anywhere 0 = Inl TypeError
   \<and> t_pcs held_by_leader 0 = T_fetching rick True
   \<and> memory (t_tiers held_by_leader) (cache_key rick) = None
   \<and> transcript_fetch 2 0 nothing_anywhere (memory (t_tiers held_by_leader))
         (t_clock held_by_leader) rick
       = (\<lparr>t_status = 500, t_body = Transcript_error ''Transcript fetch failed'',
           t_cache_control = None\<rparr>, [])
   \<and> t_pcs (t_complete default_config held_by_leader 0 nothing_anywhere) 0
       = T_finalizing rick True
           \<lparr>t_status = 500, t_body = Transcript_error ''Transcript fetch failed'',
            t_cache_control = None\<rparr>
   \<and> memory (t_tiers (t_complete default_config held_by_leader 0 nothing_anywhere))
        (cache_key rick) = None
   \<and> persistent (t_tiers (t_complete default_config held_by_leader 0 nothing_anywhere))
        (cache_key rick) = None"
proof -
  have fetch: "transcript_fetch 2 0 nothing_anywhere c now req
       = (\<lparr>t_status = 500, t_body = Transcript_error ''Transcript fetch failed'',
           t_cache_control = None\<rparr>, [])" for c now and req :: request
    by (simp add: numeral_2_eq_2 nothing_anywhere_eval)
  show ?thesis
    by (simp add: nothing_anywhere_eval held_by_leader_eval fetch
        t_complete_tiers [OF held_by_leader_eval(1)] t_complete_pc [OF held_by_leader_eval(1)]
        apply_writes_def empty_tiers_def)
qed

section \<open>Results about the order of the cache writes\<close>

text \<open>
  C3, as the code has it. After a successful fetch the result is written to the memory
  tier first and to the persistent tier second, in the transcript endpoint (whether the
  payload comes from the first call or from the retry) and in the comment endpoint.
\<close>

theorem memory_first:
  "(ends_with_payload calls payload \<longrightarrow>
      snd (transcript_fetch 2 0 calls c now req)
        = [Memory_write (cache_key req) (Dict payload),
           Persistent_write (cache_key req) (Dict payload)]
      \<and> written_before (Memory_write (cache_key req) (Dict payload))
            (Persistent_write (cache_key req) (Dict payload))
            (snd (transcript_fetch 2 0 calls c now req)))
   \<and> snd (comments_try (Returned comments) vid)
        = [Memory_write vid comments, Persistent_write vid comments]
   \<and> written_before (Memory_write vid comments) (Persistent_write vid comments)
        (snd (comments_try (Returned comments) vid))"
  by (simp add: transcript_fetch_payload comments_try_def)

text \<open>
  C3 as stated fails: in neither endpoint does the write to the persistent tier come
  before the write to the memory tier.
\<close>

theorem persistent_first_counterexample:
  "\<not> written_before (Persistent_write (cache_key rick) (Dict (lit ''text'')))
        (Memory_write (cache_key rick) (Dict (lit ''text'')))
        (snd (transcript_fetch 2 0 (\<lambda>i. Inr (lit ''text'')) Map.empty 0 rick))
   \<and> \<not> written_before (Persistent_write (lit ''BBBBBBBBBBB'') [lit ''first!''])
        (Memory_write (lit ''BBBBBBBBBBB'') [lit ''first!''])
        (snd (comments_try (Returned [lit ''first!'']) (lit ''BBBBBBBBBBB'')))"
  by (simp add: numeral_2_eq_2 comments_try_def)

theorem memory_first_witness:
  "ends_with_payload (\<lambda>i. if i = 0 then Inl RequestException else Inr (lit ''text''))
      (lit ''text'')
   \<and> snd (transcript_fetch 2 0
        (\<lambda>i. if i = 0 then Inl RequestException else Inr (lit ''text'')) Map.empty 0 rick)
      = [Memory_write (cache_key rick) (Dict (lit ''text'')),
         Persistent_write (cache_key rick) (Dict (lit ''text''))]"
proof -
  have ok: "ends_with_payload (\<lambda>i. if i = 0 then Inl RequestException else Inr (lit ''text''))
      (lit ''text'')"
    by (simp add: ends_with_payload_def)
  from memory_first [where calls = "\<lambda>i. if i = 0 then Inl RequestException else Inr (lit ''text'')"
      and payload = "lit ''text''" and c = Map.empty and now = 0 and req = rick] ok
  show ?thesis by simp
qed

section \<open>Results about the comment engine\<close>

lemma strategies_loop_block:
  assumes "list_all (\<lambda>(n, e, px). unproductive (f e px)) pre"
    and "f ex use_proxy = Raised PermanentCommentBlock"
  shows "strategies_loop f (pre @ (step, ex, use_proxy) # post)
           = ([], map fst pre @ [step], True)"
  using assms
proof (induction pre)
  case Nil
  then show ?case by simp
next
  case (Cons a pre)
  obtain n e px where a: "a = (n, e, px)" by (cases a)
  from Cons.prems a have un: "unproductive (f e px)" by simp
  from Cons.prems have "list_all (\<lambda>(n, e, px). unproductive (f e px)) pre" by simp
  with Cons.IH Cons.prems(2)
  have IH: "strategies_loop f (pre @ (step, ex, use_proxy) # post)
              = ([], map fst pre @ [step], True)"
    by simp
  show ?case
  proof (cases "f e px")
    case (Raised x)
    with un have "x \<noteq> PermanentCommentBlock" by (simp add: unproductive_def)
    with Raised a IH show ?thesis by simp
  next
    case (Returned cs)
    with un have "cs = []" by (simp add: unproductive_def)
    with Returned a IH show ?thesis by simp
  qed
qed

text \<open>
  C1, as the code has it. When a strategy raises \<open>PermanentCommentBlock\<close> and every
  strategy before it has returned no comments or raised something else, the strategies
  invoked are those up to the one that raised and no later one;
  \<open>_fetch_comments_resilient\<close> returns the empty list; the endpoint answers 200 with an
  empty comment list and writes the empty list under the video id to the memory tier
  and to the persistent tier, where the entry of the memory tier expires
  \<open>COMMENT_CACHE_TTL\<close> seconds after the write, as the entry of any fetched list does.
\<close>

theorem permanent_block_stops_chain:
  assumes "comment_retrieval_strategies = pre @ (step, ex, use_proxy) # post"
    and "list_all (\<lambda>(n, e, px). unproductive (fetch_func e px)) pre"
    and "fetch_func ex use_proxy = Raised PermanentCommentBlock"
  shows "strategies_invoked fetch_func = map fst pre @ [step]
       \<and> fetch_comments_resilient fetch_func = []
       \<and> status (fst (comments_acquire fetch_func vid)) = 200
       \<and> comments_of (body (fst (comments_acquire fetch_func vid))) = Some []
       \<and> snd (comments_acquire fetch_func vid) = [Memory_write vid [], Persistent_write vid []]
       \<and> memory (apply_writes (COMMENT_CACHE_TTL cfg) now t (snd (comments_acquire fetch_func vid)))
            vid = Some ([], now + COMMENT_CACHE_TTL cfg)
       \<and> persistent (apply_writes (COMMENT_CACHE_TTL cfg) now t
            (snd (comments_acquire fetch_func vid))) vid = Some []
       \<and> memory (apply_writes (COMMENT_CACHE_TTL cfg) now t
            (snd (comments_try (Returned comments) vid))) vid
            = Some (comments, now + COMMENT_CACHE_TTL cfg)"
proof -
  have loop: "strategies_loop fetch_func comment_retrieval_strategies
                = ([], map fst pre @ [step], True)"
    unfolding assms(1) by (rule strategies_loop_block [OF assms(2,3)])
  then show ?thesis
    by (simp add: strategies_invoked_def fetch_comments_resilient_def comments_acquire_def
        comments_try_def apply_writes_def ttl_set_def)
qed

text \<open>
  C1 as stated fails. With the block raised by the third strategy, the entry written
  for the empty list expires at the same time as the entry of a fetched list, not
  earlier; and the response carries no warning, because \<open>_fetch_comments_resilient\<close>
  handles the exception itself and returns normally.
\<close>

theorem permanent_block_counterexample:
  "strategies_invoked blocked_ytdlp
     = [''youtube-comment-downloader (no proxy)'', ''youtube-comment-downloader (with proxy)'',
        ''yt-dlp (no proxy)'']
   \<and> warning_of (body (fst (comments_acquire blocked_ytdlp (lit ''CCCCCCCCCCC'')))) = None
   \<and> expires_at (memory (apply_writes (COMMENT_CACHE_TTL default_config) 0 empty_tiers
         (snd (comments_acquire blocked_ytdlp (lit ''CCCCCCCCCCC''))))) (lit ''CCCCCCCCCCC'')
       = Some 7200
   \<and> \<not> expires_before
        (expires_at (memory (apply_writes (COMMENT_CACHE_TTL default_config) 0 empty_tiers
           (snd (comments_acquire blocked_ytdlp (lit ''CCCCCCCCCCC''))))) (lit ''CCCCCCCCCCC''))
        (expires_at (memory (apply_writes (COMMENT_CACHE_TTL default_config) 0 empty_tiers
           (snd (comments_acquire (\<lambda>ex use_proxy. Returned [lit ''first!''])
                   (lit ''CCCCCCCCCCC''))))) (lit ''CCCCCCCCCCC''))"
  by (simp add: strategies_invoked_def fetch_comments_resilient_def comments_acquire_def
      comment_retrieval_strategies_def blocked_ytdlp_def comments_try_def apply_writes_def
      ttl_set_def expires_at_def expires_before_def default_config_def empty_tiers_def)

theorem permanent_block_stops_chain_witness:
  "strategies_invoked blocked_ytdlp
     = [''youtube-comment-downloader (no proxy)'', ''youtube-comment-downloader (with proxy)'',
        ''yt-dlp (no proxy)'']
   \<and> fetch_comments_resilient blocked_ytdlp = []
   \<and> snd (comments_acquire blocked_ytdlp (lit ''CCCCCCCCCCC''))
       = [Memory_write (lit ''CCCCCCCCCCC'') [], Persistent_write (lit ''CCCCCCCCCCC'') []]"
proof -
  have split: "comment_retrieval_strategies =
      [(''youtube-comment-downloader (no proxy)'', Downloader, False),
       (''youtube-comment-downloader (with proxy)'', Downloader, True)]
      @ (''yt-dlp (no proxy)'', YtDlp, False) # [(''yt-dlp (with proxy)'', YtDlp, True)]"
    by (simp add: comment_retrieval_strategies_def)
  have quiet: "list_all (\<lambda>(n, e, px). unproductive (blocked_ytdlp e px))
      [(''youtube-comment-downloader (no proxy)'', Downloader, False),
       (''youtube-comment-downloader (with proxy)'', Downloader, True)]"
    by (simp add: unproductive_def blocked_ytdlp_def)
  have block: "blocked_ytdlp YtDlp False = Raised PermanentCommentBlock"
    by (simp add: blocked_ytdlp_def)
  from permanent_block_stops_chain [OF split quiet block, where vid = "lit ''CCCCCCCCCCC''"
      and cfg = default_config and now = 0 and t = empty_tiers and comments = "[]"]
  show ?thesis by simp
qed

section \<open>Results about the responses of the comment endpoint\<close>

lemma extract_video_id_empty: "extract_video_id U [] = None"
  by (simp add: extract_video_id_def validate_video_id_def patterns_def lit_def)

lemma read_video_id_valid:
  "extract_video_id U video_url_or_id = Some vid \<Longrightarrow> read_video_id U video_url_or_id = Inr vid"
  by (auto simp: read_video_id_def extract_video_id_empty)

lemma try_serve_status:
  "try_serve_from_cache t now vid = Some (resp, ws) \<Longrightarrow> status resp = 200"
  by (auto simp: try_serve_from_cache_def split: option.splits)

lemma comments_try_status: "status (fst (comments_try fetched vid)) = 200"
  by (simp add: comments_try_def split: outcome.splits)

lemma comments_try_raised:
  "comments_of (body (fst (comments_try (Raised e) vid))) = Some []
   \<and> warning_of (body (fst (comments_try (Raised e) vid))) \<noteq> None"
  by (simp add: comments_try_def)

lemma c_request_valid:
  assumes "c_pcs s r = C_start" and "extract_video_id U video_url_or_id = Some vid"
  shows "c_answered_ok (c_request cfg U s r video_url_or_id) r"
  using assms
  by (auto simp: c_request_def c_answered_ok_def read_video_id_valid
      split: option.splits dest: try_serve_status)

lemma c_request_ok:
  "c_answered_ok s r \<Longrightarrow> c_answered_ok (c_request cfg U s q video_url_or_id) r"
  by (cases "q = r")
     (auto simp: c_request_def c_answered_ok_def split: c_pc.splits sum.splits option.splits)

lemma c_register_ok: "c_answered_ok s r \<Longrightarrow> c_answered_ok (c_register s q) r"
  by (cases "q = r")
     (auto simp: c_register_def c_answered_ok_def split: c_pc.splits option.splits)

lemma c_wake_ok: "c_answered_ok s r \<Longrightarrow> c_answered_ok (c_wake cfg s q) r"
  by (cases "q = r")
     (auto simp: c_wake_def c_answered_ok_def split: c_pc.splits option.splits
        dest: try_serve_status)

lemma c_complete_ok: "c_answered_ok s r \<Longrightarrow> c_answered_ok (c_complete cfg s q fetched) r"
  using comments_try_status
  by (cases "q = r")
     (auto simp: c_complete_def c_answered_ok_def split: c_pc.splits prod.splits
        dest: arg_cong [where f = "\<lambda>x. status (fst x)"])

lemma c_finally_ok: "c_answered_ok s r \<Longrightarrow> c_answered_ok (c_finally s q) r"
  by (cases "q = r")
     (auto simp: c_finally_def c_answered_ok_def split: c_pc.splits)

lemma c_tick_ok:
  "c_answered_ok s r \<Longrightarrow> c_answered_ok (if d \<ge> 0 then s\<lparr>c_clock := c_clock s + d\<rparr> else s) r"
  by (simp add: c_answered_ok_def)

lemma c_step_ok: "c_answered_ok s r \<Longrightarrow> c_answered_ok (c_step cfg U s ev) r"
  by (cases ev)
     (simp_all add: c_request_ok c_register_ok c_wake_ok c_complete_ok c_finally_ok c_tick_ok)

lemma c_run_ok: "c_answered_ok s r \<Longrightarrow> c_answered_ok (c_run cfg U s evs) r"
  by (induction evs arbitrary: s) (simp_all add: c_step_ok)

text \<open>
  C9. A request to the comment endpoint whose \<open>videoId\<close> parameter is normalised to a
  video id is answered with status 200, whatever the schedule of the other requests
  and whatever the fetch returns or raises. When the call of
  \<open>_fetch_comments_resilient\<close> raises an exception, the response is 200 with an empty
  comment list and a warning. (The operations of the cache tiers are taken to succeed,
  and the rate limiter in front of the function is not part of the model.)
\<close>

theorem comments_always_200:
  assumes "c_pcs s r = C_start"
    and "extract_video_id U video_url_or_id = Some vid"
    and "c_pcs (c_run cfg U s (C_request r video_url_or_id # evs)) r = C_done resp"
  shows "status resp = 200
       \<and> status (fst (comments_try (Raised e) k)) = 200
       \<and> comments_of (body (fst (comments_try (Raised e) k))) = Some []
       \<and> warning_of (body (fst (comments_try (Raised e) k))) \<noteq> None"
proof -
  have "c_answered_ok (c_request cfg U s r video_url_or_id) r"
    using assms(1,2) by (rule c_request_valid)
  then have "c_answered_ok (c_run cfg U (c_request cfg U s r video_url_or_id) evs) r"
    by (rule c_run_ok)
  with assms(3) have "status resp = 200"
    by (simp add: c_answered_ok_def)
  then show ?thesis
    by (simp add: comments_try_status comments_try_raised)
qed

lemmas c_machine_defs =
  c_init_def empty_tiers_def c_request_def c_register_def c_wake_def c_complete_def
  c_finally_def try_serve_from_cache_def ttl_get_def ttl_set_def apply_writes_def
  default_config_def read_video_id_def

lemma short_link_id:
  "extract_video_id U (lit ''https://youtu.be/dQw4w9WgXcQ'') = Some (lit ''dQw4w9WgXcQ'')"
  by (simp add: extract_video_id_def validate_video_id_def lit_def patterns_def group11_def
      id_char_def word_char_def)

lemma fetch_raises_eval:
  "c_pcs (c_run default_config U (c_init empty_tiers 0) fetch_raises) 0 =
     C_done \<lparr>status = 200,
             body = Comments_json (lit ''dQw4w9WgXcQ'') []
               (Some ''Comments could not be fetched due to a technical issue.'')\<rparr>"
proof -
  have "lit ''https://youtu.be/dQw4w9WgXcQ'' \<noteq> []" by (simp add: lit_def)
  then show ?thesis
    by (simp add: fetch_raises_def c_machine_defs short_link_id comments_try_def)
qed

theorem comments_always_200_witness:
  "c_pcs (c_init empty_tiers 0) 0 = C_start
   \<and> extract_video_id (\<lambda>c. False) (lit ''https://youtu.be/dQw4w9WgXcQ'')
       = Some (lit ''dQw4w9WgXcQ'')
   \<and> c_pcs (c_run default_config (\<lambda>c. False) (c_init empty_tiers 0) fetch_raises) 0 =
       C_done \<lparr>status = 200,
               body = Comments_json (lit ''dQw4w9WgXcQ'') []
                 (Some ''Comments could not be fetched due to a technical issue.'')\<rparr>
   \<and> status \<lparr>status = 200,
               body = Comments_json (lit ''dQw4w9WgXcQ'') []
                 (Some ''Comments could not be fetched due to a technical issue.'')\<rparr> = 200"
proof -
  have start: "c_pcs (c_init empty_tiers 0) 0 = C_start"
    by (simp add: c_init_def)
  have run: "c_pcs (c_run default_config (\<lambda>c. False) (c_init empty_tiers 0)
               (C_request 0 (lit ''https://youtu.be/dQw4w9WgXcQ'')
                # [C_register 0, C_complete 0 (Raised OtherException), C_finally 0])) 0 =
       C_done \<lparr>status = 200,
               body = Comments_json (lit ''dQw4w9WgXcQ'') []
                 (Some ''Comments could not be fetched due to a technical issue.'')\<rparr>"
    using fetch_raises_eval [of "\<lambda>c. False"] by (simp add: fetch_raises_def)
  from comments_always_200 [OF start short_link_id run] start short_link_id
    fetch_raises_eval [of "\<lambda>c. False"]
  show ?thesis by simp
qed

section \<open>Results about single-flight coordination\<close>

lemma t_inv_init: "t_inv (t_init t now)"
  by (simp add: t_inv_def t_init_def t_leads_def)

lemma t_leads_request [simp]:
  "t_leads (t_request cfg mk s r req) r' k = t_leads s r' k"
  by (auto simp: t_request_def t_leads_def split: t_pc.splits option.splits)

lemma t_inflight_request [simp]:
  "transcript_inflight_events (t_request cfg mk s r req) = transcript_inflight_events s"
  by (auto simp: t_request_def split: t_pc.splits option.splits)

lemma t_leads_wake [simp]:
  "t_leads (t_wake cfg mk s r) r' k = t_leads s r' k"
  by (auto simp: t_wake_def t_leads_def split: t_pc.splits option.splits)

lemma t_inflight_wake [simp]:
  "transcript_inflight_events (t_wake cfg mk s r) = transcript_inflight_events s"
  by (auto simp: t_wake_def split: t_pc.splits option.splits)

lemma t_leads_complete [simp]:
  "t_leads (t_complete cfg s r calls) r' k = t_leads s r' k"
  by (auto simp: t_complete_def t_leads_def split: t_pc.splits prod.splits)

lemma t_inflight_complete [simp]:
  "transcript_inflight_events (t_complete cfg s r calls) = transcript_inflight_events s"
  by (auto simp: t_complete_def split: t_pc.splits prod.splits)

lemma t_inv_frame:
  assumes "t_inv s"
    and "\<And>r k. t_leads s' r k = t_leads s r k"
    and "transcript_inflight_events s' = transcript_inflight_events s"
  shows "t_inv s'"
  using assms unfolding t_inv_def by presburger

lemma t_register_elects:
  assumes "t_pcs s r = T_missed req"
    and "transcript_inflight_events s (cache_key req) = None"
  shows "t_leads (t_register s r) r' k =
           (if r' = r then k = cache_key req else t_leads s r' k)"
    and "transcript_inflight_events (t_register s r) =
           (transcript_inflight_events s)(cache_key req \<mapsto> t_next_event s)"
  using assms by (auto simp: t_register_def t_leads_def)

lemma t_register_follows:
  assumes "\<not> (\<exists>req. t_pcs s r = T_missed req
                  \<and> transcript_inflight_events s (cache_key req) = None)"
  shows "t_leads (t_register s r) r' k = t_leads s r' k"
    and "transcript_inflight_events (t_register s r) = transcript_inflight_events s"
  using assms by (auto simp: t_register_def t_leads_def split: t_pc.splits option.splits)

lemma t_inv_register:
  assumes "t_inv s"
  shows "t_inv (t_register s r)"
proof (cases "\<exists>req. t_pcs s r = T_missed req
                  \<and> transcript_inflight_events s (cache_key req) = None")
  case True
  then obtain req where req: "t_pcs s r = T_missed req"
      "transcript_inflight_events s (cache_key req) = None"
    by blast
  from assms req(2) have nobody: "\<And>q. \<not> t_leads s q (cache_key req)"
    unfolding t_inv_def by fastforce
  note el = t_register_elects [OF req]
  show ?thesis
    unfolding t_inv_def
  proof (intro conjI allI impI)
    fix r1 r2 k
    assume "t_leads (t_register s r) r1 k \<and> t_leads (t_register s r) r2 k"
    with nobody assms show "r1 = r2"
      unfolding el t_inv_def by (metis (full_types))
  next
    fix q k
    assume "t_leads (t_register s r) q k"
    with assms show "transcript_inflight_events (t_register s r) k \<noteq> None"
      unfolding el t_inv_def by (auto split: if_splits)
  qed
next
  case False
  show ?thesis
    by (rule t_inv_frame [OF assms]) (simp_all add: t_register_follows [OF False])
qed

lemma t_finally_leaves:
  assumes "t_pcs s r = T_finalizing req leader resp"
  shows "t_leads (t_finally s r) r' k = (r' \<noteq> r \<and> t_leads s r' k)"
    and "transcript_inflight_events (t_finally s r) =
           (if leader then (transcript_inflight_events s)(cache_key req := None)
            else transcript_inflight_events s)"
  using assms by (auto simp: t_finally_def t_leads_def split: option.splits)

lemma t_finally_idle:
  assumes "\<not> (\<exists>req leader resp. t_pcs s r = T_finalizing req leader resp)"
  shows "t_finally s r = s"
  using assms by (auto simp: t_finally_def split: t_pc.splits)

lemma t_inv_finally:
  assumes "t_inv s"
  shows "t_inv (t_finally s r)"
proof (cases "\<exists>req leader resp. t_pcs s r = T_finalizing req leader resp")
  case True
  then obtain req leader resp where pc: "t_pcs s r = T_finalizing req leader resp"
    by blast
  note lv = t_finally_leaves [OF pc]
  have mine: "leader \<Longrightarrow> t_leads s r (cache_key req)"
    using pc by (simp add: t_leads_def)
  show ?thesis
    unfolding t_inv_def
  proof (intro conjI allI impI)
    fix r1 r2 k
    assume "t_leads (t_finally s r) r1 k \<and> t_leads (t_finally s r) r2 k"
    with assms show "r1 = r2"
      unfolding lv t_inv_def by blast
  next
    fix q k
    assume q: "t_leads (t_finally s r) q k"
    then have qs: "q \<noteq> r" "t_leads s q k" unfolding lv by simp_all
    from assms qs(2) have reg: "transcript_inflight_events s k \<noteq> None"
      unfolding t_inv_def by blast
    show "transcript_inflight_events (t_finally s r) k \<noteq> None"
    proof (cases "leader \<and> k = cache_key req")
      case True
      with mine have "t_leads s r k" by simp
      with assms qs have "q = r" unfolding t_inv_def by blast
      with qs(1) show ?thesis by simp
    next
      case False
      with reg show ?thesis unfolding lv by auto
    qed
  qed
next
  case False
  then show ?thesis using assms by (simp add: t_finally_idle)
qed

lemma t_inv_step:
  assumes "t_inv s"
  shows "t_inv (t_step cfg mk s ev)"
proof (cases ev)
  case (T_tick d)
  have "t_inv (if d \<ge> 0 then s\<lparr>t_clock := t_clock s + d\<rparr> else s)"
    by (rule t_inv_frame [OF assms]) (simp_all add: t_leads_def)
  with T_tick show ?thesis by simp
next
  case (T_request r req)
  have "t_inv (t_request cfg mk s r req)"
    by (rule t_inv_frame [OF assms]) simp_all
  with T_request show ?thesis by simp
next
  case (T_register r)
  with assms show ?thesis by (simp add: t_inv_register)
next
  case (T_wake r)
  have "t_inv (t_wake cfg mk s r)"
    by (rule t_inv_frame [OF assms]) simp_all
  with T_wake show ?thesis by simp
next
  case (T_complete r calls)
  have "t_inv (t_complete cfg s r calls)"
    by (rule t_inv_frame [OF assms]) simp_all
  with T_complete show ?thesis by simp
next
  case (T_finally r)
  with assms show ?thesis by (simp add: t_inv_finally)
qed

lemma t_inv_run: "t_inv s \<Longrightarrow> t_inv (t_run cfg mk s evs)"
proof (induction evs arbitrary: s)
  case Nil
  then show ?case by simp
next
  case (Cons ev evs)
  from Cons.prems have "t_inv (t_step cfg mk s ev)" by (rule t_inv_step)
  then have "t_inv (t_run cfg mk (t_step cfg mk s ev) evs)" by (rule Cons.IH)
  then show ?case by simp
qed

lemma bare_id: "extract_video_id U (lit ''dQw4w9WgXcQ'') = Some (lit ''dQw4w9WgXcQ'')"
  by (simp add: extract_video_id_def validate_video_id_def lit_def word_char_def)

lemma bare_id_nonempty: "lit ''dQw4w9WgXcQ'' \<noteq> []"
  by (simp add: lit_def)

lemma t_register_leads:
  assumes "t_pcs s r = T_missed req"
  shows "t_leads (t_register s r) r (cache_key req)
           \<longleftrightarrow> transcript_inflight_events s (cache_key req) = None"
  using assms by (auto simp: t_register_def t_leads_def split: option.splits)

lemma c_register_leads:
  assumes "c_pcs cs r = C_missed vid"
  shows "c_leads (c_register cs r) r vid \<longleftrightarrow> comment_inflight_events cs vid = None"
  using assms by (auto simp: c_register_def c_leads_def split: option.splits)

lemma t_wake_promotes:
  assumes "t_pcs s r = T_waiting req evt since"
    and "t_is_set s evt \<or> since + 30 \<le> t_clock s"
    and "transcript_lookup_after_wait mk (t_tiers s) (t_clock s) req = None"
  shows "t_acquiring (t_wake cfg mk s r) r (cache_key req)"
  using assms by (auto simp: t_wake_def t_acquiring_def)

lemma c_wake_promotes:
  assumes "c_pcs cs r = C_waiting vid evt since"
    and "(\<not> c_is_set cs evt \<and> since + COMMENT_INFLIGHT_WAIT_SECONDS cfg \<le> c_clock cs)
         \<or> (c_is_set cs evt \<and> try_serve_from_cache (c_tiers cs) (c_clock cs) vid = None)"
  shows "c_leads (c_wake cfg cs r) r vid"
  using assms by (auto simp: c_wake_def c_leads_def)

text \<open>
  C2, as the code has it. In the transcript endpoint at most one requester at a time is
  leader for a key. In both endpoints the requester that registers is made leader
  exactly when the table holds no event under its key. The followers are not subject
  to an election: every follower of the transcript endpoint whose wait has ended (the
  event is set or 30 seconds have passed) and whose second cache read gives nothing
  goes on to fetch, and every follower of the comment endpoint whose wait has timed
  out, or has ended on a set event with a cache miss, goes on to fetch as a leader.
\<close>

theorem single_flight_registration:
  "(t_leads (t_run cfg mk (t_init t now) evs) r1 k
      \<and> t_leads (t_run cfg mk (t_init t now) evs) r2 k \<longrightarrow> r1 = r2)
   \<and> (t_pcs s r = T_missed req \<longrightarrow>
        (t_leads (t_register s r) r (cache_key req)
           \<longleftrightarrow> transcript_inflight_events s (cache_key req) = None))
   \<and> (c_pcs cs r = C_missed vid \<longrightarrow>
        (c_leads (c_register cs r) r vid \<longleftrightarrow> comment_inflight_events cs vid = None))
   \<and> (t_pcs s r = T_waiting req evt since
        \<and> (t_is_set s evt \<or> since + 30 \<le> t_clock s)
        \<and> transcript_lookup_after_wait mk (t_tiers s) (t_clock s) req = None \<longrightarrow>
        t_acquiring (t_wake cfg mk s r) r (cache_key req))
   \<and> (c_pcs cs r = C_waiting vid evt since
        \<and> ((\<not> c_is_set cs evt \<and> since + COMMENT_INFLIGHT_WAIT_SECONDS cfg \<le> c_clock cs)
           \<or> (c_is_set cs evt \<and> try_serve_from_cache (c_tiers cs) (c_clock cs) vid = None))
        \<longrightarrow> c_leads (c_wake cfg cs r) r vid)"
proof -
  have "t_inv (t_run cfg mk (t_init t now) evs)"
    by (intro t_inv_run t_inv_init)
  then have one: "t_leads (t_run cfg mk (t_init t now) evs) r1 k
      \<and> t_leads (t_run cfg mk (t_init t now) evs) r2 k \<longrightarrow> r1 = r2"
    unfolding t_inv_def by blast
  show ?thesis
    using one t_register_leads [of s r req] c_register_leads [of cs r vid]
      t_wake_promotes [of s r req evt since mk cfg] c_wake_promotes [of cs r vid evt since cfg]
    by blast
qed

text \<open>
  C2 as stated fails. Transcript endpoint: the leader's fetch fails, its two followers
  wake on the set event, miss the caches and are both fetching under the same key.
  Comment endpoint: the waits of two followers time out while the leader is still
  fetching, and all three requesters are leaders under the same key.
\<close>

theorem single_flight_counterexample:
  "t_pcs (t_run default_config id (t_init empty_tiers 0) leader_fails) 0
     = T_done \<lparr>t_status = 500, t_body = Transcript_error ''Transcript fetch failed'',
               t_cache_control = None\<rparr>
   \<and> t_acquiring (t_run default_config id (t_init empty_tiers 0) leader_fails)
        1 (lit ''dQw4w9WgXcQ'')
   \<and> t_acquiring (t_run default_config id (t_init empty_tiers 0) leader_fails)
        2 (lit ''dQw4w9WgXcQ'')
   \<and> c_leads (c_run default_config (\<lambda>c. False) (c_init empty_tiers 0) waits_time_out)
        0 (lit ''dQw4w9WgXcQ'')
   \<and> c_leads (c_run default_config (\<lambda>c. False) (c_init empty_tiers 0) waits_time_out)
        1 (lit ''dQw4w9WgXcQ'')
   \<and> c_leads (c_run default_config (\<lambda>c. False) (c_init empty_tiers 0) waits_time_out)
        2 (lit ''dQw4w9WgXcQ'')
   \<and> (1::nat) \<noteq> 2"
proof -
  have t: "t_pcs (t_run default_config id (t_init empty_tiers 0) leader_fails) 0
     = T_done \<lparr>t_status = 500, t_body = Transcript_error ''Transcript fetch failed'',
               t_cache_control = None\<rparr>
   \<and> t_acquiring (t_run default_config id (t_init empty_tiers 0) leader_fails)
        1 (lit ''dQw4w9WgXcQ'')
   \<and> t_acquiring (t_run default_config id (t_init empty_tiers 0) leader_fails)
        2 (lit ''dQw4w9WgXcQ'')"
    by (simp add: leader_fails_def machine_defs t_acquiring_def numeral_2_eq_2)
  have c: "c_leads (c_run default_config (\<lambda>c. False) (c_init empty_tiers 0) waits_time_out)
        0 (lit ''dQw4w9WgXcQ'')
   \<and> c_leads (c_run default_config (\<lambda>c. False) (c_init empty_tiers 0) waits_time_out)
        1 (lit ''dQw4w9WgXcQ'')
   \<and> c_leads (c_run default_config (\<lambda>c. False) (c_init empty_tiers 0) waits_time_out)
        2 (lit ''dQw4w9WgXcQ'')"
    by (simp add: waits_time_out_def c_machine_defs c_leads_def bare_id bare_id_nonempty)
  from t c show ?thesis by simp
qed

lemma t_arrived_eval:
  "t_pcs t_arrived 0 = T_missed rick"
  "transcript_inflight_events t_arrived (cache_key rick) = None"
  by (simp_all add: t_arrived_def machine_defs)

lemma t_follower_woken_eval:
  "t_pcs t_follower_woken 1 = T_waiting rick 0 0"
  "t_is_set t_follower_woken 0"
  "transcript_lookup_after_wait id (t_tiers t_follower_woken) (t_clock t_follower_woken) rick
     = None"
  by (simp_all add: t_follower_woken_def machine_defs numeral_2_eq_2)

lemma c_arrived_eval:
  "c_pcs c_arrived 0 = C_missed (lit ''dQw4w9WgXcQ'')"
  "comment_inflight_events c_arrived (lit ''dQw4w9WgXcQ'') = None"
  by (simp_all add: c_arrived_def c_machine_defs bare_id bare_id_nonempty)

lemma c_follower_timed_out_eval:
  "c_pcs c_follower_timed_out 1 = C_waiting (lit ''dQw4w9WgXcQ'') 0 0"
  "\<not> c_is_set c_follower_timed_out 0"
  "c_clock c_follower_timed_out = 15"
  by (simp_all add: c_follower_timed_out_def c_machine_defs bare_id bare_id_nonempty)

theorem single_flight_registration_witness:
  "t_leads held_by_leader 0 (cache_key rick)
   \<and> t_pcs t_arrived 0 = T_missed rick
   \<and> t_leads (t_register t_arrived 0) 0 (cache_key rick)
   \<and> c_pcs c_arrived 0 = C_missed (lit ''dQw4w9WgXcQ'')
   \<and> c_leads (c_register c_arrived 0) 0 (lit ''dQw4w9WgXcQ'')
   \<and> t_pcs t_follower_woken 1 = T_waiting rick 0 0
   \<and> t_acquiring (t_wake default_config id t_follower_woken 1) 1 (cache_key rick)
   \<and> c_pcs c_follower_timed_out 1 = C_waiting (lit ''dQw4w9WgXcQ'') 0 0
   \<and> c_leads (c_wake default_config c_follower_timed_out 1) 1 (lit ''dQw4w9WgXcQ'')"
proof -
  have lead: "t_leads held_by_leader 0 (cache_key rick)"
    by (simp add: t_leads_def held_by_leader_eval)
  have wait: "(0::real) + COMMENT_INFLIGHT_WAIT_SECONDS default_config \<le> 15"
    by (simp add: default_config_def)
  from single_flight_registration [where cfg = default_config and mk = id and t = empty_tiers
      and now = 0 and evs = "[T_request 0 rick, T_register 0]" and ?r1.0 = 0 and ?r2.0 = 0
      and k = "cache_key rick" and s = t_arrived and r = 0 and req = rick and cs = c_arrived
      and vid = "lit ''dQw4w9WgXcQ''"]
  have reg: "t_leads (t_register t_arrived 0) 0 (cache_key rick)
             \<and> c_leads (c_register c_arrived 0) 0 (lit ''dQw4w9WgXcQ'')"
    by (simp add: t_arrived_eval c_arrived_eval)
  from single_flight_registration [where cfg = default_config and mk = id
      and s = t_follower_woken and r = 1 and req = rick and evt = 0 and since = 0
      and cs = c_follower_timed_out and vid = "lit ''dQw4w9WgXcQ''"]
  have wake: "t_acquiring (t_wake default_config id t_follower_woken 1) 1 (cache_key rick)
              \<and> c_leads (c_wake default_config c_follower_timed_out 1) 1 (lit ''dQw4w9WgXcQ'')"
    using wait by (simp add: t_follower_woken_eval c_follower_timed_out_eval del: One_nat_def)
  from lead reg wake show ?thesis
    by (simp add: t_arrived_eval c_arrived_eval t_follower_woken_eval
        c_follower_timed_out_eval del: One_nat_def)
qed

end
